theory Spec2Isabelle
  imports Complex_Main
begin

section \<open>Driving-trial harness: input mapping and trial state machine\<close>

text \<open>
  A shallow embedding of \<^verbatim>\<open>manual_control_steeringwheel_Research_Base.py\<close>:
  the classes \<^verbatim>\<open>TrialManager\<close> and \<^verbatim>\<open>DualControl\<close> and the part of
  \<^verbatim>\<open>World\<close> that holds the vehicle lights.

  Conventions of the embedding.
  \<^item> Python floats are real numbers; \<^verbatim>\<open>float('inf')\<close>, which only ever sits in
    \<^verbatim>\<open>min_speed_during_run\<close>, is \<open>None\<close> there.
  \<^item> An attribute that may hold \<^verbatim>\<open>None\<close> is an \<open>option\<close>.
  \<^item> An uncaught Python exception is a value \<open>Inl e\<close>; it ends the program, so no
    state is returned with it.
  \<^item> What the program reads from outside is an argument of the function that reads it:
    \<open>now\<close> is the reading of \<^verbatim>\<open>time.time()\<close> (one reading for all the calls made
    inside one method call), \<open>code\<close> is the string drawn by \<^verbatim>\<open>generate_code\<close>,
    \<open>pose\<close> is \<^verbatim>\<open>player.get_transform()\<close>, \<open>keys\<close> is
    \<^verbatim>\<open>pygame.key.get_pressed()\<close>, \<open>jsInputs\<close> the joystick axes.
  \<^item> What the program writes outside (CSV files, calls on the simulator) is appended to
    a list kept in the state.
\<close>

subsection \<open>Python helpers\<close>

datatype py_error = TypeError | ZeroDivisionError | IndexError | ValueError | KeyError

text \<open>\<^verbatim>\<open>a / b\<close> on numbers.\<close>

definition py_truediv :: "real \<Rightarrow> real \<Rightarrow> py_error + real" where
  "py_truediv a b = (if b \<noteq> 0 then Inr (a / b) else Inl ZeroDivisionError)"

text \<open>\<^verbatim>\<open>a % b\<close> on integers; for \<open>b \<noteq> 0\<close> the sign follows the divisor, as HOL's \<open>mod\<close>.\<close>

definition py_mod :: "int \<Rightarrow> int \<Rightarrow> py_error + int" where
  "py_mod a b = (if b \<noteq> 0 then Inr (a mod b) else Inl ZeroDivisionError)"

text \<open>\<^verbatim>\<open>xs[i]\<close>: a negative index counts from the end.\<close>

definition py_index :: "'a list \<Rightarrow> int \<Rightarrow> py_error + 'a" where
  "py_index xs i =
     (if 0 \<le> i \<and> i < int (length xs) then Inr (xs ! nat i)
      else if i < 0 \<and> - int (length xs) \<le> i then Inr (xs ! nat (int (length xs) + i))
      else Inl IndexError)"

text \<open>\<^verbatim>\<open>xs.index(v)\<close>: the first position of \<open>v\<close>, or \<^verbatim>\<open>ValueError\<close>.\<close>

fun index_of :: "'a list \<Rightarrow> 'a \<Rightarrow> nat option" where
  "index_of [] v = None"
| "index_of (x # xs) v =
     (if x = v then Some 0 else map_option Suc (index_of xs v))"

text \<open>\<^verbatim>\<open>int(x)\<close> on a float truncates towards zero.\<close>

definition py_int :: "real \<Rightarrow> int" where
  "py_int x = (if 0 \<le> x then \<lfloor>x\<rfloor> else \<lceil>x\<rceil>)"

text \<open>
  \<^verbatim>\<open>round(x, n)\<close>: to \<open>n\<close> decimal digits, a tie going to the even neighbour. The
  model rounds the real number; Python rounds the binary float, so the two can differ
  where the real number is an exact decimal tie (\<^verbatim>\<open>round(-0.05, 1)\<close> is \<^verbatim>\<open>-0.1\<close> in
  Python, since the float lies below the tie, and 0 here).
\<close>

definition round_half_even :: "real \<Rightarrow> int" where
  "round_half_even x =
     (let f = \<lfloor>x\<rfloor>; d = x - of_int f
      in if d < 1 / 2 then f
         else if 1 / 2 < d then f + 1
         else if even f then f else f + 1)"

definition py_round :: "real \<Rightarrow> nat \<Rightarrow> real" where
  "py_round x n = of_int (round_half_even (x * 10 ^ n)) / 10 ^ n"

text \<open>
  \<^verbatim>\<open>s.strip()\<close> is non-empty iff \<open>s\<close> has a character that is not white space.
  The white space is that of \<^verbatim>\<open>str.isspace\<close> among the code points below 256.
\<close>

definition is_space :: "char \<Rightarrow> bool" where
  "is_space c =
     (let n = of_char c :: nat
      in n = 32 \<or> (9 \<le> n \<and> n \<le> 13) \<or> (28 \<le> n \<and> n \<le> 31) \<or> n = 133 \<or> n = 160)"

definition strip_nonempty :: "string \<Rightarrow> bool" where
  "strip_nonempty s = (filter (\<lambda>c. \<not> is_space c) s \<noteq> [])"

subsection \<open>Keys and events\<close>

text \<open>The \<^verbatim>\<open>pygame.K_*\<close> constants the program names; \<open>K_digit n\<close> is \<^verbatim>\<open>K_0 + n\<close>.\<close>

datatype key =
    K_RETURN | K_SPACE | K_BACKSPACE | K_ESCAPE | K_TAB | K_F1 | K_KP1
  | K_UP | K_DOWN | K_LEFT | K_RIGHT
  | K_a | K_c | K_d | K_h | K_l | K_m | K_p | K_q | K_r | K_s | K_w
  | K_SLASH | K_BACKQUOTE | K_COMMA | K_PERIOD
  | K_digit nat | K_other nat

text \<open>
  The events of \<^verbatim>\<open>pygame.event.get()\<close> that the program tells apart:
  \<open>KEYDOWN key unicode\<close>, \<open>MOUSEBUTTONDOWN x y\<close> with the position clicked.
\<close>

datatype event =
    QUIT
  | JOYBUTTONDOWN int
  | KEYUP key
  | KEYDOWN key string
  | MOUSEBUTTONDOWN int int
  | OTHER_EVENT

subsection \<open>TrialManager\<close>

record pose =
  loc_x :: real
  loc_y :: real
  loc_z :: real
  rot_pitch :: real
  rot_yaw :: real
  rot_roll :: real

text \<open>A row of \<^verbatim>\<open>data_to_write\<close> (the run stream).\<close>

record run_row =
  row_user_name :: string
  row_session_code :: string
  row_trial_code :: "string option"
  row_timestamp :: int
  row_time_elapsed :: real
  row_speed :: real
  row_pose :: pose
  row_heading_degrees :: real
  row_heading_cardinal :: string
  row_vehicle :: string

text \<open>A row written by \<^verbatim>\<open>record_event\<close> (the event stream).\<close>

record event_row =
  ev_session_code :: string
  ev_trial_code :: "string option"
  ev_timestamp :: int
  ev_type :: string
  ev_violation_duration :: real
  ev_pose :: pose

text \<open>The dictionary \<^verbatim>\<open>trial_results\<close>.\<close>

record results =
  trial_duration :: real
  avg_speed :: real
  avg_violation_duration :: real
  result_violation_count :: int

text \<open>
  A row written by \<^verbatim>\<open>write_totals_to_csv\<close>; the cells hold the values, before they
  are formatted as text.
\<close>

record totals_row =
  tot_user_name :: string
  tot_session_code :: string
  tot_trial_code :: "string option"
  tot_start_time :: real
  tot_trial_duration :: real
  tot_avg_speed :: real
  tot_max_speed :: real
  tot_min_speed :: "real option"
  tot_violation_count :: int
  tot_avg_violation_duration :: real
  tot_vehicle :: string
  tot_weather :: string

text \<open>Calls made on the simulator and the HUD by \<^verbatim>\<open>start_trial\<close>.\<close>

datatype host_call = Notification string | SetTransform pose

record trial_manager =
  trial_active :: bool
  start_time :: "real option"
  end_time :: "real option"
  violation_start :: "real option"
  violation_durations :: "(real \<times> real) list"
  violation_count :: int
  max_speed :: real
  trial_results :: "results option"
  display_results :: bool
  start_screen :: bool
  current_speed :: real
  speeding_warning :: bool
  max_speed_during_run :: real
  min_speed_during_run :: "real option"
  session_code :: string
  trial_code :: "string option"
  user_name :: string
  new_user_name :: string
  user_names :: "string list"
  active_input :: bool
  dropdown_open :: bool
  selected_name_index :: int
  data_to_write :: "run_row list"
  vehicle_type :: string
  weather_preset :: string
  start_pose :: pose
  runs_csv :: "run_row list"
  events_csv :: "event_row list"
  totals_csv :: "totals_row list"
  names_file :: "string list"
  host_calls :: "host_call list"

text \<open>
  \<^verbatim>\<open>start_trial\<close>: arm a trial. \<open>start_pose\<close> is the transform built from
  \<^verbatim>\<open>trial_settings\<close>.
\<close>

definition start_trial :: "trial_manager \<Rightarrow> trial_manager" where
  "start_trial s =
     s\<lparr>start_screen := True,
       trial_active := False,
       host_calls := host_calls s @
         [Notification ''Press Enter to Start Run'', SetTransform (start_pose s)]\<rparr>"

definition initiate_trial :: "trial_manager \<Rightarrow> real \<Rightarrow> string \<Rightarrow> trial_manager" where
  "initiate_trial s now code =
     s\<lparr>trial_active := True,
       start_time := Some now,
       violation_start := None,
       violation_durations := [],
       violation_count := 0,
       display_results := False,
       start_screen := False,
       speeding_warning := False,
       max_speed_during_run := 0,
       min_speed_during_run := None,
       trial_code := Some code\<rparr>"

text \<open>
  \<^verbatim>\<open>calculate_results\<close>. Subtracting with \<^verbatim>\<open>None\<close> is a \<^verbatim>\<open>TypeError\<close>; the two
  averages divide by the length of the list unless the list is empty.
\<close>

definition calculate_results :: "trial_manager \<Rightarrow> py_error + trial_manager" where
  "calculate_results s =
     (case (end_time s, start_time s) of
        (Some e, Some b) \<Rightarrow>
          (case (if violation_durations s \<noteq> []
                 then py_truediv (sum_list (map snd (violation_durations s)))
                        (real (length (violation_durations s)))
                 else Inr 0) of
             Inl err \<Rightarrow> Inl err
           | Inr a_speed \<Rightarrow>
              (case (if violation_durations s \<noteq> []
                     then py_truediv (sum_list (map fst (violation_durations s)))
                            (real (length (violation_durations s)))
                     else Inr 0) of
                 Inl err \<Rightarrow> Inl err
               | Inr a_dur \<Rightarrow>
                   Inr (s\<lparr>trial_results := Some
                         \<lparr>trial_duration = e - b,
                          avg_speed = a_speed,
                          avg_violation_duration = a_dur,
                          result_violation_count = violation_count s\<rparr>\<rparr>)))
      | _ \<Rightarrow> Inl TypeError)"

definition write_totals_to_csv :: "trial_manager \<Rightarrow> py_error + trial_manager" where
  "write_totals_to_csv s =
     (case start_time s of
        None \<Rightarrow> Inl TypeError
      | Some b \<Rightarrow>
         (case trial_results s of
            None \<Rightarrow> Inl KeyError
          | Some r \<Rightarrow>
              Inr (s\<lparr>totals_csv := totals_csv s @
                    [\<lparr>tot_user_name = user_name s,
                      tot_session_code = session_code s,
                      tot_trial_code = trial_code s,
                      tot_start_time = b,
                      tot_trial_duration = trial_duration r,
                      tot_avg_speed = py_round (avg_speed r) 2,
                      tot_max_speed = py_round (max_speed_during_run s) 2,
                      tot_min_speed = map_option (\<lambda>m. py_round m 2) (min_speed_during_run s),
                      tot_violation_count = result_violation_count r,
                      tot_avg_violation_duration = avg_violation_duration r,
                      tot_vehicle = vehicle_type s,
                      tot_weather = weather_preset s\<rparr>]\<rparr>)))"

text \<open>
  \<^verbatim>\<open>end_trial\<close>. The runs file is opened in \<^verbatim>\<open>__init__\<close> and stays open, so the
  buffered rows are always written.
\<close>

definition end_trial :: "trial_manager \<Rightarrow> real \<Rightarrow> py_error + trial_manager" where
  "end_trial s now =
     (case calculate_results (s\<lparr>trial_active := False, end_time := Some now\<rparr>) of
        Inl err \<Rightarrow> Inl err
      | Inr s1 \<Rightarrow>
          write_totals_to_csv
            (s1\<lparr>display_results := True,
                runs_csv := runs_csv s1 @ data_to_write s1,
                data_to_write := []\<rparr>))"

definition calculate_heading_cardinal :: "real \<Rightarrow> string" where
  "calculate_heading_cardinal yaw =
     (if \<bar>yaw\<bar> < 45 then ''N''
      else if 45 \<le> yaw \<and> yaw < 135 then ''E''
      else if \<bar>yaw\<bar> \<ge> 135 then ''S''
      else ''W'')"

text \<open>
  The violation edge detector of \<^verbatim>\<open>track_speed\<close> (the \<^verbatim>\<open>if speed > self.max_speed\<close>
  statement), for a trial that is active.
\<close>

definition track_violation :: "trial_manager \<Rightarrow> real \<Rightarrow> pose \<Rightarrow> real \<Rightarrow> trial_manager" where
  "track_violation s speed p now =
     (if speed > max_speed s then
        (if violation_start s = None
         then s\<lparr>violation_start := Some now, violation_count := violation_count s + 1\<rparr>
         else s)\<lparr>speeding_warning := True\<rparr>
      else
        (case violation_start s of
           None \<Rightarrow> s
         | Some vs \<Rightarrow>
             s\<lparr>violation_durations := violation_durations s @ [(now - vs, speed)],
               events_csv := events_csv s @
                 [\<lparr>ev_session_code = session_code s,
                   ev_trial_code = trial_code s,
                   ev_timestamp = py_int now,
                   ev_type = ''violation'',
                   ev_violation_duration = now - vs,
                   ev_pose = p\<rparr>],
               violation_start := None\<rparr>)\<lparr>speeding_warning := False\<rparr>)"

text \<open>The half-second sampling clock of \<^verbatim>\<open>track_speed\<close>.\<close>

definition collect_sample :: "trial_manager \<Rightarrow> real \<Rightarrow> pose \<Rightarrow> real \<Rightarrow> py_error + trial_manager" where
  "collect_sample s speed p now =
     (case start_time s of
        None \<Rightarrow> Inl TypeError
      | Some b \<Rightarrow>
          if now - b \<ge> real (length (data_to_write s)) * 0.5
          then Inr (s\<lparr>data_to_write := data_to_write s @
                   [\<lparr>row_user_name = user_name s,
                     row_session_code = session_code s,
                     row_trial_code = trial_code s,
                     row_timestamp = py_int now,
                     row_time_elapsed = py_round (now - b) 2,
                     row_speed = speed,
                     row_pose = p,
                     row_heading_degrees = rot_yaw p,
                     row_heading_cardinal = calculate_heading_cardinal (rot_yaw p),
                     row_vehicle = vehicle_type s\<rparr>]\<rparr>)
          else Inr s)"

definition track_speed :: "trial_manager \<Rightarrow> real \<Rightarrow> pose \<Rightarrow> real \<Rightarrow> py_error + trial_manager" where
  "track_speed s speed p now =
     (let s0 = s\<lparr>current_speed := speed\<rparr>
      in if trial_active s0 then
           collect_sample
             (track_violation
                (s0\<lparr>max_speed_during_run := max (max_speed_during_run s0) speed,
                    min_speed_during_run :=
                      (case min_speed_during_run s0 of
                         None \<Rightarrow> Some speed
                       | Some m \<Rightarrow> Some (min m speed))\<rparr>)
                speed p now)
             speed p now
         else Inr s0)"

text \<open>\<^verbatim>\<open>save_user_name\<close>; the memory file holds the list of names.\<close>

definition save_user_name :: "trial_manager \<Rightarrow> string \<Rightarrow> py_error + trial_manager" where
  "save_user_name s name =
     (let s1 = (if name \<noteq> [] \<and> name \<notin> set (user_names s)
                then s\<lparr>user_names := user_names s @ [name],
                       names_file := user_names s @ [name]\<rparr>
                else s)
      in case index_of (user_names s1) name of
           None \<Rightarrow> Inl ValueError
         | Some i \<Rightarrow> Inr (s1\<lparr>user_name := name, selected_name_index := int i\<rparr>))"

text \<open>\<^verbatim>\<open>pygame.Rect(x, y, w, h).collidepoint(px, py)\<close>.\<close>

definition collidepoint :: "int \<times> int \<times> int \<times> int \<Rightarrow> int \<Rightarrow> int \<Rightarrow> bool" where
  "collidepoint r px py =
     (case r of (x, y, w, h) \<Rightarrow> x \<le> px \<and> px < x + w \<and> y \<le> py \<and> py < y + h)"

text \<open>The \<^verbatim>\<open>MOUSEBUTTONDOWN\<close> part of \<^verbatim>\<open>handle_event\<close>.\<close>

definition handle_mouse :: "trial_manager \<Rightarrow> int \<Rightarrow> int \<Rightarrow> py_error + trial_manager" where
  "handle_mouse s px py =
     (let input_box = (640 - 100, 360 + 50, 200, 32);
          add_button = (640 - 100 + 210, 360 + 50, 80, 32);
          dropdown_rect = (640 - 100, 360 + 82, 200, int (length (user_names s)) * 32)
      in if collidepoint input_box px py then
           Inr (s\<lparr>active_input := True, dropdown_open := (\<not> dropdown_open s)\<rparr>)
         else if collidepoint add_button px py then
           (case (if strip_nonempty (new_user_name s)
                  then (case save_user_name s (new_user_name s) of
                          Inl err \<Rightarrow> Inl err
                        | Inr s1 \<Rightarrow> Inr (s1\<lparr>new_user_name := []\<rparr>))
                  else Inr s) of
              Inl err \<Rightarrow> Inl err
            | Inr s2 \<Rightarrow> Inr (s2\<lparr>dropdown_open := False\<rparr>))
         else if collidepoint dropdown_rect px py \<and> dropdown_open s then
           (let i = (py - (360 + 82)) div 32
            in case py_index (user_names s) i of
                 Inl err \<Rightarrow> Inl err
               | Inr n \<Rightarrow>
                   Inr (s\<lparr>selected_name_index := i, user_name := n, dropdown_open := False\<rparr>))
         else Inr (s\<lparr>active_input := False, dropdown_open := False\<rparr>))"

text \<open>The second \<^verbatim>\<open>KEYDOWN\<close> part of \<^verbatim>\<open>handle_event\<close>: the name box and the dropdown.\<close>

definition handle_name_keys :: "trial_manager \<Rightarrow> key \<Rightarrow> string \<Rightarrow> py_error + trial_manager" where
  "handle_name_keys s k u =
     (if active_input s then
        (if k = K_RETURN then
           (case (if strip_nonempty (new_user_name s)
                  then (case save_user_name s (new_user_name s) of
                          Inl err \<Rightarrow> Inl err
                        | Inr s1 \<Rightarrow> Inr (s1\<lparr>new_user_name := []\<rparr>))
                  else Inr s) of
              Inl err \<Rightarrow> Inl err
            | Inr s2 \<Rightarrow> Inr (s2\<lparr>active_input := False\<rparr>))
         else if k = K_BACKSPACE then
           Inr (s\<lparr>new_user_name := butlast (new_user_name s)\<rparr>)
         else Inr (s\<lparr>new_user_name := new_user_name s @ u\<rparr>))
      else if dropdown_open s then
        (if k = K_DOWN then
           (case py_mod (selected_name_index s + 1) (int (length (user_names s))) of
              Inl err \<Rightarrow> Inl err
            | Inr i \<Rightarrow>
               (case py_index (user_names s) i of
                  Inl err \<Rightarrow> Inl err
                | Inr n \<Rightarrow> Inr (s\<lparr>selected_name_index := i, user_name := n\<rparr>)))
         else if k = K_UP then
           (case py_mod (selected_name_index s - 1) (int (length (user_names s))) of
              Inl err \<Rightarrow> Inl err
            | Inr i \<Rightarrow>
               (case py_index (user_names s) i of
                  Inl err \<Rightarrow> Inl err
                | Inr n \<Rightarrow> Inr (s\<lparr>selected_name_index := i, user_name := n\<rparr>)))
         else Inr s)
      else Inr s)"

text \<open>
  \<^verbatim>\<open>handle_event\<close>. With the results on display \<^verbatim>\<open>K_RETURN\<close> only closes them and
  returns; otherwise the trial keys are handled first and the name keys after.
\<close>

definition handle_event :: "trial_manager \<Rightarrow> event \<Rightarrow> real \<Rightarrow> string \<Rightarrow> py_error + trial_manager" where
  "handle_event s ev now code =
     (case ev of
        KEYDOWN k u \<Rightarrow>
          if k = K_RETURN \<and> display_results s then Inr (s\<lparr>display_results := False\<rparr>)
          else
            (case (if k = K_RETURN then
                     (if start_screen s then Inr (initiate_trial s now code) else Inr s)
                   else if k = K_SPACE \<and> trial_active s then end_trial s now
                   else Inr s) of
               Inl err \<Rightarrow> Inl err
             | Inr s1 \<Rightarrow> handle_name_keys s1 k u)
      | MOUSEBUTTONDOWN px py \<Rightarrow> handle_mouse s px py
      | _ \<Rightarrow> Inr s)"

text \<open>
  The polling block of \<^verbatim>\<open>game_loop\<close> (the four \<^verbatim>\<open>if keys[...]\<close> statements), run
  once per frame after \<^verbatim>\<open>parse_events\<close>.
\<close>

definition poll_trial_keys :: "trial_manager \<Rightarrow> (key \<Rightarrow> bool) \<Rightarrow> real \<Rightarrow> string \<Rightarrow> py_error + trial_manager" where
  "poll_trial_keys s keys now code =
     (let s1 = (if keys K_KP1 then start_trial s else s);
          s2 = (if keys K_RETURN \<and> start_screen s1 then initiate_trial s1 now code else s1)
      in case (if keys K_SPACE \<and> trial_active s2 then end_trial s2 now else Inr s2) of
           Inl err \<Rightarrow> Inl err
         | Inr s3 \<Rightarrow>
             Inr (if keys K_RETURN \<and> display_results s3 then start_trial s3 else s3))"

text \<open>A run of ticks: \<^verbatim>\<open>track_speed\<close> once per frame, on the samples \<open>(speed, pose, now)\<close>.\<close>

fun run_ticks :: "trial_manager \<Rightarrow> (real \<times> pose \<times> real) list \<Rightarrow> py_error + trial_manager" where
  "run_ticks s [] = Inr s"
| "run_ticks s ((speed, p, now) # ts) =
     (case track_speed s speed p now of
        Inl err \<Rightarrow> Inl err
      | Inr s1 \<Rightarrow> run_ticks s1 ts)"

text \<open>
  The state after \<^verbatim>\<open>TrialManager.__init__\<close>, for a speed limit, a start pose, a session
  code, the names loaded from the memory file, a vehicle label and a weather label.
\<close>

definition init_trial_manager ::
  "real \<Rightarrow> pose \<Rightarrow> string \<Rightarrow> string list \<Rightarrow> string \<Rightarrow> string \<Rightarrow> trial_manager" where
  "init_trial_manager limit sp scode names vehicle weather =
     \<lparr>trial_active = False,
      start_time = None,
      end_time = None,
      violation_start = None,
      violation_durations = [],
      violation_count = 0,
      max_speed = limit,
      trial_results = None,
      display_results = False,
      start_screen = False,
      current_speed = 0,
      speeding_warning = False,
      max_speed_during_run = 0,
      min_speed_during_run = None,
      session_code = scode,
      trial_code = None,
      user_name = (if names = [] then [] else last names),
      new_user_name = [],
      user_names = names,
      active_input = False,
      dropdown_open = False,
      selected_name_index = int (length names) - 1,
      data_to_write = [],
      vehicle_type = vehicle,
      weather_preset = weather,
      start_pose = sp,
      runs_csv = [],
      events_csv = [],
      totals_csv = [],
      names_file = names,
      host_calls = []\<rparr>"

text \<open>
  One trial from arming to the end: \<^verbatim>\<open>start_trial\<close>, \<^verbatim>\<open>initiate_trial\<close> at \<open>t0\<close>,
  the ticks, \<^verbatim>\<open>end_trial\<close> at \<open>t1\<close>.
\<close>

definition trial_run ::
  "trial_manager \<Rightarrow> real \<Rightarrow> string \<Rightarrow> (real \<times> pose \<times> real) list \<Rightarrow> real \<Rightarrow> py_error + trial_manager" where
  "trial_run s t0 code ticks t1 =
     (case run_ticks (initiate_trial (start_trial s) t0 code) ticks of
        Inl err \<Rightarrow> Inl err
      | Inr s1 \<Rightarrow> end_trial s1 t1)"

text \<open>The violation count that the trial summary reports.\<close>

definition summary_violation_count :: "trial_manager \<Rightarrow> int option" where
  "summary_violation_count s = map_option result_violation_count (trial_results s)"

definition summary_avg_speed :: "trial_manager \<Rightarrow> real option" where
  "summary_avg_speed s = map_option avg_speed (trial_results s)"

definition summary_avg_violation_duration :: "trial_manager \<Rightarrow> real option" where
  "summary_avg_violation_duration s = map_option avg_violation_duration (trial_results s)"

subsection \<open>The specification's view of a trial\<close>

text \<open>
  Violation windows counted on the sequence of sampled speeds alone, following the
  specification: a window opens at a sample above the limit when none is open, and closes
  at a sample at or below the limit when one is open. \<open>opn\<close> says whether a window is
  open before the first sample.
\<close>

fun opened_windows :: "real \<Rightarrow> bool \<Rightarrow> real list \<Rightarrow> nat" where
  "opened_windows limit opn [] = 0"
| "opened_windows limit opn (v # vs) =
     (if v > limit then (if opn then 0 else 1) + opened_windows limit True vs
      else opened_windows limit False vs)"

fun closed_windows :: "real \<Rightarrow> bool \<Rightarrow> real list \<Rightarrow> nat" where
  "closed_windows limit opn [] = 0"
| "closed_windows limit opn (v # vs) =
     (if v > limit then closed_windows limit True vs
      else (if opn then 1 else 0) + closed_windows limit False vs)"

fun open_at_end :: "real \<Rightarrow> bool \<Rightarrow> real list \<Rightarrow> bool" where
  "open_at_end limit opn [] = opn"
| "open_at_end limit opn (v # vs) = open_at_end limit (v > limit) vs"

text \<open>
  The pairs that the closed windows leave behind, following the specification: a window
  that closes at a tick leaves the pair of its duration, from the time of the tick that
  opened it to the time of this tick, and of the speed sampled at this tick. \<open>opened\<close>
  is the opening time of the window open before the first tick, if there is one.
\<close>

fun closing_records :: "real \<Rightarrow> real option \<Rightarrow> (real \<times> pose \<times> real) list \<Rightarrow> (real \<times> real) list" where
  "closing_records limit opened [] = []"
| "closing_records limit opened ((v, p, now) # ts) =
     (if v > limit then
        closing_records limit (case opened of None \<Rightarrow> Some now | Some t \<Rightarrow> Some t) ts
      else
        (case opened of None \<Rightarrow> [] | Some t \<Rightarrow> [(now - t, v)])
          @ closing_records limit None ts)"

text \<open>
  The trial state of the specification: what a trial reads and writes, without the
  fields of the user-name box (\<^verbatim>\<open>user_name\<close>, \<^verbatim>\<open>new_user_name\<close>, \<^verbatim>\<open>user_names\<close>,
  \<^verbatim>\<open>active_input\<close>, \<^verbatim>\<open>dropdown_open\<close>, \<^verbatim>\<open>selected_name_index\<close> and the memory file).
\<close>

definition trial_state where
  "trial_state s =
     ((trial_active s, start_time s, end_time s, trial_code s, start_screen s,
       display_results s, trial_results s),
      (violation_start s, violation_durations s, violation_count s, speeding_warning s,
       max_speed_during_run s, min_speed_during_run s, current_speed s, max_speed s),
      (data_to_write s, runs_csv s, events_csv s, totals_csv s, host_calls s))"

text \<open>
  The states of the specification's lifecycle, read off the three flags: Armed shows the
  start prompt, Running has the trial active, Finished shows the results of a trial that
  has ended, Idle is none of them.
\<close>

definition is_armed :: "trial_manager \<Rightarrow> bool" where
  "is_armed s = start_screen s"

definition is_running :: "trial_manager \<Rightarrow> bool" where
  "is_running s = trial_active s"

definition is_finished :: "trial_manager \<Rightarrow> bool" where
  "is_finished s = (display_results s \<and> \<not> start_screen s \<and> \<not> trial_active s)"

definition is_idle :: "trial_manager \<Rightarrow> bool" where
  "is_idle s = (\<not> display_results s \<and> \<not> start_screen s \<and> \<not> trial_active s)"

text \<open>Concrete inputs for the examples.\<close>

definition pose0 :: pose where
  "pose0 = \<lparr>loc_x = 0, loc_y = 0, loc_z = 0, rot_pitch = 0, rot_yaw = 0, rot_roll = 0\<rparr>"

definition tm0 :: trial_manager where
  "tm0 = init_trial_manager 45 pose0 ''S1'' [] ''Dodge Charger 2020'' ''Clear Noon''"

subsection \<open>World: the vehicle lights\<close>

text \<open>
  The flags of \<^verbatim>\<open>carla.VehicleLightState\<close> that the program names. A light state is the
  set of flags that are on: \<^verbatim>\<open>state |= f\<close> inserts \<open>f\<close>, \<^verbatim>\<open>state &= ~f\<close> removes it.
\<close>

datatype light = Position | LowBeam | HighBeam | Brake | Reverse

text \<open>\<^verbatim>\<open>carla.VehicleControl\<close>.\<close>

record vehicle_control =
  throttle :: real
  steer :: real
  brake :: real
  hand_brake :: bool
  reverse :: bool
  manual_gear_shift :: bool
  gear :: int

text \<open>Calls on the simulator, the HUD and the camera manager whose effect stays there.\<close>

datatype world_call =
    Restart | ToggleInfo | ToggleHelp | ToggleCamera | NextWeather bool | NextSensor
  | SetSensor int | ToggleRecording | SetAutopilot bool | HudNotification string

text \<open>
  \<open>light_state\<close> is the light state of the player, \<open>player_gear\<close> the gear that
  \<^verbatim>\<open>player.get_control()\<close> reports, \<open>applied\<close> the commands handed to
  \<^verbatim>\<open>player.apply_control\<close>, oldest first.
\<close>

record world =
  headlights_on :: bool
  light_state :: "light set"
  player_gear :: int
  applied :: "vehicle_control list"
  world_calls :: "world_call list"

definition world_call :: "world_call \<Rightarrow> world \<Rightarrow> world" where
  "world_call c w = w\<lparr>world_calls := world_calls w @ [c]\<rparr>"

text \<open>\<^verbatim>\<open>World.restart\<close>: the new player starts with the lights of \<^verbatim>\<open>init_vehicle_lights\<close>.\<close>

definition restart :: "world \<Rightarrow> world" where
  "restart w = world_call Restart (w\<lparr>light_state := {Position}\<rparr>)"

definition toggle_headlights :: "world \<Rightarrow> world" where
  "toggle_headlights w =
     (let on = \<not> headlights_on w
      in w\<lparr>headlights_on := on,
           light_state := (if on then insert LowBeam (light_state w)
                           else light_state w - {LowBeam})\<rparr>)"

definition set_vehicle_light_state :: "world \<Rightarrow> bool \<Rightarrow> bool \<Rightarrow> world" where
  "set_vehicle_light_state w brake_light reverse_light =
     (let l1 = (if brake_light then insert Brake (light_state w) else light_state w - {Brake});
          l2 = (if reverse_light then insert Reverse l1 else l1 - {Reverse})
      in w\<lparr>light_state := l2\<rparr>)"

subsection \<open>DualControl\<close>

text \<open>
  The entries of \<^verbatim>\<open>axis_mapping\<close> that hold a joystick axis or button: \<open>joy_c\<close> is
  \<^verbatim>\<open>axis_mapping[c]['joystick']\<close>.
\<close>

record axis_mapping =
  joy_steering :: "int option"
  joy_throttle :: "int option"
  joy_brake :: "int option"
  joy_reverse :: "int option"
  joy_handbrake :: "int option"
  joy_hide_hud :: "int option"
  joy_toggle_headlights :: "int option"

text \<open>
  The player is a vehicle. \<open>key_mapping c\<close> is \<open>None\<close> when the dictionary has no
  entry for \<open>c\<close>, and else holds \<^verbatim>\<open>getattr(pygame, 'K_' + key_mapping[c], None)\<close>.
  \<open>joystick\<close> says whether a joystick was found.
\<close>

record dual_control =
  autopilot_enabled :: bool
  control :: vehicle_control
  steer_cache :: real
  axis_mapping :: axis_mapping
  key_mapping :: "string \<Rightarrow> key option option"
  steering_damping :: real
  throttle_damping :: real
  brake_damping :: real
  joystick :: bool

text \<open>\<^verbatim>\<open>self._control.gear = 1 if self._control.reverse else -1\<close>.\<close>

definition toggle_gear :: "dual_control \<Rightarrow> dual_control" where
  "toggle_gear dc = dc\<lparr>control := (control dc)\<lparr>gear := (if reverse (control dc) then 1 else - 1)\<rparr>\<rparr>"

text \<open>\<^verbatim>\<open>self._control.hand_brake = not self._control.hand_brake\<close>.\<close>

definition toggle_hand_brake :: "dual_control \<Rightarrow> dual_control" where
  "toggle_hand_brake dc = dc\<lparr>control := (control dc)\<lparr>hand_brake := (\<not> hand_brake (control dc))\<rparr>\<rparr>"

definition handle_joystick_button :: "dual_control \<Rightarrow> world \<Rightarrow> int \<Rightarrow> dual_control \<times> world" where
  "handle_joystick_button dc w button =
     (if joy_reverse (axis_mapping dc) = Some button then (toggle_gear dc, w)
      else if joy_handbrake (axis_mapping dc) = Some button then (toggle_hand_brake dc, w)
      else if joy_hide_hud (axis_mapping dc) = Some button then (dc, world_call ToggleInfo w)
      else if joy_toggle_headlights (axis_mapping dc) = Some button then (dc, toggle_headlights w)
      else if button = 0 then (dc, restart w)
      else if button = 1 then (dc, world_call ToggleInfo w)
      else if button = 2 then (dc, world_call ToggleCamera w)
      else if button = 3 then (dc, world_call (NextWeather False) w)
      else if button = 23 then (dc, world_call NextSensor w)
      else (dc, w))"

definition toggle_vehicle_lights :: "world \<Rightarrow> world" where
  "toggle_vehicle_lights w =
     (if HighBeam \<in> light_state w then w\<lparr>light_state := light_state w - {HighBeam}\<rparr>
      else w\<lparr>light_state := insert HighBeam (light_state w)\<rparr>)"

text \<open>
  \<^verbatim>\<open>event.key > K_0 and event.key <= K_9\<close>, with the sensor index
  \<^verbatim>\<open>event.key - 1 - K_0\<close>.
\<close>

definition sensor_key :: "key \<Rightarrow> int option" where
  "sensor_key k =
     (case k of
        K_digit n \<Rightarrow> if 0 < n \<and> n \<le> 9 then Some (int n - 1) else None
      | _ \<Rightarrow> None)"

text \<open>
  The first \<^verbatim>\<open>if\<close>/\<^verbatim>\<open>elif\<close> chain of \<^verbatim>\<open>_handle_key\<close>; \<open>shift\<close> is
  \<^verbatim>\<open>pygame.key.get_mods() & KMOD_SHIFT\<close>. Reading a control that \<^verbatim>\<open>key_mapping\<close> lacks
  is a \<^verbatim>\<open>KeyError\<close>.
\<close>

definition handle_key_chain :: "dual_control \<Rightarrow> world \<Rightarrow> key \<Rightarrow> bool \<Rightarrow> py_error + dual_control \<times> world" where
  "handle_key_chain dc w k shift =
     (if k = K_BACKSPACE then Inr (dc, restart w)
      else if k = K_F1 then Inr (dc, world_call ToggleInfo w)
      else if k = K_h \<or> (k = K_SLASH \<and> shift) then Inr (dc, world_call ToggleHelp w)
      else if k = K_TAB then Inr (dc, world_call ToggleCamera w)
      else if k = K_c \<and> shift then Inr (dc, world_call (NextWeather True) w)
      else if k = K_c then Inr (dc, world_call (NextWeather False) w)
      else if k = K_BACKQUOTE then Inr (dc, world_call NextSensor w)
      else if sensor_key k \<noteq> None then Inr (dc, world_call (SetSensor (the (sensor_key k))) w)
      else if k = K_r then Inr (dc, world_call ToggleRecording w)
      else if key_mapping dc ''reverse'' = None then Inl KeyError
      else if key_mapping dc ''reverse'' = Some (Some k) then Inr (toggle_gear dc, w)
      else if key_mapping dc ''handbrake'' = None then Inl KeyError
      else if key_mapping dc ''handbrake'' = Some (Some k) then Inr (toggle_hand_brake dc, w)
      else if key_mapping dc ''hide_hud'' = None then Inl KeyError
      else if key_mapping dc ''hide_hud'' = Some (Some k) then Inr (dc, world_call ToggleInfo w)
      else if key_mapping dc ''toggle_headlights'' = None then Inl KeyError
      else if key_mapping dc ''toggle_headlights'' = Some (Some k) then Inr (dc, toggle_headlights w)
      else Inr (dc, w))"

text \<open>
  \<^verbatim>\<open>_handle_key\<close>: the chain above, then the keys of a vehicle.
\<close>

definition handle_key :: "dual_control \<Rightarrow> world \<Rightarrow> key \<Rightarrow> bool \<Rightarrow> py_error + dual_control \<times> world" where
  "handle_key dc w k shift =
     (case handle_key_chain dc w k shift of
        Inl err \<Rightarrow> Inl err
      | Inr (dc1, w1) \<Rightarrow>
          if k = K_q then Inr (toggle_gear dc1, w1)
          else if k = K_m then
            Inr (dc1\<lparr>control := (control dc1)
                     \<lparr>manual_gear_shift := (\<not> manual_gear_shift (control dc1)),
                      gear := player_gear w1\<rparr>\<rparr>,
                 world_call (HudNotification
                   (if manual_gear_shift (control dc1) then ''Automatic Transmission''
                    else ''Manual Transmission'')) w1)
          else if manual_gear_shift (control dc1) \<and> k = K_COMMA then
            Inr (dc1\<lparr>control := (control dc1)\<lparr>gear := max (- 1) (gear (control dc1) - 1)\<rparr>\<rparr>, w1)
          else if manual_gear_shift (control dc1) \<and> k = K_PERIOD then
            Inr (dc1\<lparr>control := (control dc1)\<lparr>gear := gear (control dc1) + 1\<rparr>\<rparr>, w1)
          else if k = K_p then
            Inr (dc1\<lparr>autopilot_enabled := (\<not> autopilot_enabled dc1)\<rparr>,
                 world_call (HudNotification
                   (if \<not> autopilot_enabled dc1 then ''Autopilot On'' else ''Autopilot Off''))
                   (world_call (SetAutopilot (\<not> autopilot_enabled dc1)) w1))
          else if k = K_l then Inr (dc1, toggle_vehicle_lights w1)
          else Inr (dc1, w1))"

text \<open>\<^verbatim>\<open>_is_quit_shortcut\<close>; \<open>ctrl\<close> is \<^verbatim>\<open>pygame.key.get_mods() & KMOD_CTRL\<close>.\<close>

definition is_quit_shortcut :: "key \<Rightarrow> bool \<Rightarrow> bool" where
  "is_quit_shortcut k ctrl = (k = K_ESCAPE \<or> (k = K_q \<and> ctrl))"

text \<open>\<^verbatim>\<open>_parse_vehicle_keys\<close>: the digital controls, from the keys held.\<close>

definition parse_vehicle_keys :: "dual_control \<Rightarrow> (key \<Rightarrow> bool) \<Rightarrow> int \<Rightarrow> dual_control" where
  "parse_vehicle_keys dc keys milliseconds =
     (let steer_increment = 5 / 10000 * real_of_int milliseconds;
          cache1 = (if keys K_LEFT \<or> keys K_a then steer_cache dc - steer_increment
                    else if keys K_RIGHT \<or> keys K_d then steer_cache dc + steer_increment
                    else 0);
          cache2 = min (7 / 10) (max (- (7 / 10)) cache1)
      in dc\<lparr>steer_cache := cache2,
            control := (control dc)
              \<lparr>throttle := (if keys K_UP \<or> keys K_w then 1 else 0),
               steer := py_round cache2 1,
               brake := (if keys K_DOWN \<or> keys K_s then 1 else 0),
               hand_brake := keys K_SPACE\<rparr>\<rparr>)"

text \<open>\<^verbatim>\<open>math.log10\<close> raises \<^verbatim>\<open>ValueError\<close> outside its domain.\<close>

definition py_log10 :: "real \<Rightarrow> py_error + real" where
  "py_log10 x = (if 0 < x then Inr (log 10 x) else Inl ValueError)"

text \<open>
  The response curve of the two pedals in \<^verbatim>\<open>_parse_vehicle_wheel\<close>, with its clamp:
  \<^verbatim>\<open>damping * (1.6 + (2.05 * math.log10(-0.7 * raw + 1.4) - 1.2) / 0.92)\<close> and then
  \<^verbatim>\<open>max(0, min(1, cmd))\<close>.
\<close>

definition pedal_curve :: "real \<Rightarrow> real \<Rightarrow> py_error + real" where
  "pedal_curve damping raw =
     (case py_log10 (- (7 / 10) * raw + 14 / 10) of
        Inl err \<Rightarrow> Inl err
      | Inr l \<Rightarrow>
          Inr (max 0 (min 1 (damping * (16 / 10 + (205 / 100 * l - 12 / 10) / (92 / 100))))))"

text \<open>
  \<^verbatim>\<open>_parse_vehicle_wheel\<close>: the analog controls, when the three axes are mapped. The
  commands are computed in the order steer, throttle, brake.
\<close>

definition parse_vehicle_wheel :: "dual_control \<Rightarrow> real list \<Rightarrow> py_error + dual_control" where
  "parse_vehicle_wheel dc jsInputs =
     (case (joy_steering (axis_mapping dc), joy_throttle (axis_mapping dc),
            joy_brake (axis_mapping dc)) of
        (Some steering_axis, Some throttle_axis, Some brake_axis) \<Rightarrow>
          (case py_index jsInputs steering_axis of
             Inl err \<Rightarrow> Inl err
           | Inr sraw \<Rightarrow>
              (case py_index jsInputs throttle_axis of
                 Inl err \<Rightarrow> Inl err
               | Inr traw \<Rightarrow>
                  (case pedal_curve (throttle_damping dc) traw of
                     Inl err \<Rightarrow> Inl err
                   | Inr throttleCmd \<Rightarrow>
                      (case py_index jsInputs brake_axis of
                         Inl err \<Rightarrow> Inl err
                       | Inr braw \<Rightarrow>
                          (case pedal_curve (brake_damping dc) braw of
                             Inl err \<Rightarrow> Inl err
                           | Inr brakeCmd \<Rightarrow>
                               Inr (dc\<lparr>control := (control dc)
                                     \<lparr>steer := steering_damping dc * tan (11 / 10 * sraw),
                                      brake := brakeCmd,
                                      throttle := throttleCmd\<rparr>\<rparr>))))))
      | _ \<Rightarrow> Inr dc)"

definition update_vehicle_lights :: "dual_control \<Rightarrow> world \<Rightarrow> world" where
  "update_vehicle_lights dc w =
     set_vehicle_light_state w (brake (control dc) > 0) (gear (control dc) < 0)"

text \<open>
  The per-tick update: the part of \<^verbatim>\<open>parse_events\<close> after the event loop. It builds
  the command from the keys held and the joystick axes, hands it to the simulator and
  sets the brake and reverse lights.
\<close>

definition update_controls ::
  "dual_control \<Rightarrow> world \<Rightarrow> (key \<Rightarrow> bool) \<Rightarrow> int \<Rightarrow> real list \<Rightarrow> py_error + dual_control \<times> world" where
  "update_controls dc w keys milliseconds jsInputs =
     (if \<not> autopilot_enabled dc then
        (case (if joystick dc
               then parse_vehicle_wheel (parse_vehicle_keys dc keys milliseconds) jsInputs
               else Inr (parse_vehicle_keys dc keys milliseconds)) of
           Inl err \<Rightarrow> Inl err
         | Inr dc1 \<Rightarrow>
             (let dc2 = dc1\<lparr>control := (control dc1)\<lparr>reverse := (gear (control dc1) < 0)\<rparr>\<rparr>
              in Inr (dc2, update_vehicle_lights dc2 (w\<lparr>applied := applied w @ [control dc2]\<rparr>))))
      else Inr (dc, w))"

text \<open>
  The event loop of \<^verbatim>\<open>parse_events\<close>; the Boolean says whether the loop returned
  \<^verbatim>\<open>True\<close> (quit).
\<close>

fun handle_events ::
  "dual_control \<Rightarrow> world \<Rightarrow> trial_manager \<Rightarrow> event list \<Rightarrow> bool \<Rightarrow> bool \<Rightarrow> real \<Rightarrow> string
     \<Rightarrow> py_error + bool \<times> dual_control \<times> world \<times> trial_manager" where
  "handle_events dc w tm [] shift ctrl now code = Inr (False, dc, w, tm)"
| "handle_events dc w tm (QUIT # es) shift ctrl now code = Inr (True, dc, w, tm)"
| "handle_events dc w tm (JOYBUTTONDOWN b # es) shift ctrl now code =
     (case handle_joystick_button dc w b of
        (dc1, w1) \<Rightarrow> handle_events dc1 w1 tm es shift ctrl now code)"
| "handle_events dc w tm (KEYUP k # es) shift ctrl now code =
     (if is_quit_shortcut k ctrl then Inr (True, dc, w, tm)
      else case handle_key dc w k shift of
             Inl err \<Rightarrow> Inl err
           | Inr (dc1, w1) \<Rightarrow> handle_events dc1 w1 tm es shift ctrl now code)"
| "handle_events dc w tm (KEYDOWN k u # es) shift ctrl now code =
     (case handle_event tm (KEYDOWN k u) now code of
        Inl err \<Rightarrow> Inl err
      | Inr tm1 \<Rightarrow> handle_events dc w tm1 es shift ctrl now code)"
| "handle_events dc w tm (MOUSEBUTTONDOWN px py # es) shift ctrl now code =
     (case handle_event tm (MOUSEBUTTONDOWN px py) now code of
        Inl err \<Rightarrow> Inl err
      | Inr tm1 \<Rightarrow> handle_events dc w tm1 es shift ctrl now code)"
| "handle_events dc w tm (OTHER_EVENT # es) shift ctrl now code =
     handle_events dc w tm es shift ctrl now code"

text \<open>\<^verbatim>\<open>parse_events\<close>: the event loop, then the per-tick update unless the loop quit.\<close>

definition parse_events ::
  "dual_control \<Rightarrow> world \<Rightarrow> trial_manager \<Rightarrow> event list \<Rightarrow> bool \<Rightarrow> bool \<Rightarrow> real \<Rightarrow> string
     \<Rightarrow> (key \<Rightarrow> bool) \<Rightarrow> int \<Rightarrow> real list
     \<Rightarrow> py_error + bool \<times> dual_control \<times> world \<times> trial_manager" where
  "parse_events dc w tm events shift ctrl now code keys milliseconds jsInputs =
     (case handle_events dc w tm events shift ctrl now code of
        Inl err \<Rightarrow> Inl err
      | Inr (True, dc1, w1, tm1) \<Rightarrow> Inr (True, dc1, w1, tm1)
      | Inr (False, dc1, w1, tm1) \<Rightarrow>
          (case update_controls dc1 w1 keys milliseconds jsInputs of
             Inl err \<Rightarrow> Inl err
           | Inr (dc2, w2) \<Rightarrow> Inr (False, dc2, w2, tm1)))"

text \<open>Per-tick updates in a row, on the inputs \<open>(keys, milliseconds, jsInputs)\<close>.\<close>

fun run_updates ::
  "dual_control \<Rightarrow> world \<Rightarrow> ((key \<Rightarrow> bool) \<times> int \<times> real list) list \<Rightarrow> py_error + dual_control \<times> world" where
  "run_updates dc w [] = Inr (dc, w)"
| "run_updates dc w ((keys, milliseconds, jsInputs) # ts) =
     (case update_controls dc w keys milliseconds jsInputs of
        Inl err \<Rightarrow> Inl err
      | Inr (dc1, w1) \<Rightarrow> run_updates dc1 w1 ts)"

text \<open>
  The state after \<^verbatim>\<open>DualControl.__init__\<close> for a vehicle, and the world with the lights
  of \<^verbatim>\<open>init_vehicle_lights\<close>.
\<close>

definition init_dual_control ::
  "bool \<Rightarrow> axis_mapping \<Rightarrow> (string \<Rightarrow> key option option) \<Rightarrow> real \<Rightarrow> real \<Rightarrow> real \<Rightarrow> bool \<Rightarrow> dual_control" where
  "init_dual_control start_in_autopilot am km sd td bd js =
     \<lparr>autopilot_enabled = start_in_autopilot,
      control = \<lparr>throttle = 0, steer = 0, brake = 0, hand_brake = False, reverse = False,
                 manual_gear_shift = False, gear = 0\<rparr>,
      steer_cache = 0,
      axis_mapping = am,
      key_mapping = km,
      steering_damping = sd,
      throttle_damping = td,
      brake_damping = bd,
      joystick = js\<rparr>"

definition init_world :: world where
  "init_world = \<lparr>headlights_on = False, light_state = {Position}, player_gear = 0,
                 applied = [], world_calls = []\<rparr>"

text \<open>The mode of the per-tick update: analog when a joystick is there with its three axes mapped.\<close>

definition analog_mode :: "dual_control \<Rightarrow> bool" where
  "analog_mode dc =
     (joystick dc \<and> joy_steering (axis_mapping dc) \<noteq> None
      \<and> joy_throttle (axis_mapping dc) \<noteq> None \<and> joy_brake (axis_mapping dc) \<noteq> None)"

text \<open>The keys held, as \<^verbatim>\<open>pygame.key.get_pressed()\<close> reports them.\<close>

definition held :: "key list \<Rightarrow> key \<Rightarrow> bool" where
  "held ks k = (k \<in> set ks)"

text \<open>Concrete inputs for the examples.\<close>

definition wheel_mapping :: axis_mapping where
  "wheel_mapping = \<lparr>joy_steering = Some 0, joy_throttle = Some 1, joy_brake = Some 2,
     joy_reverse = Some 4, joy_handbrake = Some 5, joy_hide_hud = None,
     joy_toggle_headlights = None\<rparr>"

definition no_key_mapping :: "string \<Rightarrow> key option option" where
  "no_key_mapping c = None"

definition keyboard_control :: dual_control where
  "keyboard_control = init_dual_control False wheel_mapping no_key_mapping (1 / 2) 1 1 False"

definition wheel_control :: dual_control where
  "wheel_control = init_dual_control False wheel_mapping no_key_mapping 1 1 1 True"

text \<open>
  A trial that is running, one with a violation window open since time 1, and one that
  has ended and shows its results.
\<close>

definition running0 :: trial_manager where
  "running0 = initiate_trial (start_trial tm0) 0 ''c''"

definition speeding0 :: trial_manager where
  "speeding0 = track_violation running0 50 pose0 1"

definition finished0 :: trial_manager where
  "finished0 = running0\<lparr>trial_active := False, end_time := Some 9, display_results := True\<rparr>"

section \<open>Properties of the trial state machine\<close>

lemmas concrete_defs = running0_def speeding0_def finished0_def tm0_def pose0_def init_trial_manager_def
  start_trial_def initiate_trial_def track_violation_def

subsection \<open>One tick of an active trial\<close>

lemma collect_sample_fields:
  assumes "start_time s = Some b"
  shows "\<exists>s'. collect_sample s v p now = Inr s'
           \<and> trial_active s' = trial_active s \<and> start_time s' = Some b
           \<and> max_speed s' = max_speed s
           \<and> violation_count s' = violation_count s
           \<and> violation_durations s' = violation_durations s
           \<and> violation_start s' = violation_start s
           \<and> events_csv s' = events_csv s"
  using assms by (simp add: collect_sample_def)

lemma track_violation_fields:
  "trial_active (track_violation s v p now) = trial_active s"
  "start_time (track_violation s v p now) = start_time s"
  "max_speed (track_violation s v p now) = max_speed s"
  by (simp_all add: track_violation_def split: option.splits)

lemma track_violation_count:
  "violation_count (track_violation s v p now) =
     violation_count s + (if v > max_speed s \<and> violation_start s = None then 1 else 0)"
  by (simp add: track_violation_def split: option.splits)

lemma track_violation_durations:
  "violation_durations (track_violation s v p now) =
     violation_durations s @
       (if v > max_speed s then []
        else (case violation_start s of None \<Rightarrow> [] | Some vs \<Rightarrow> [(now - vs, v)]))"
  by (simp add: track_violation_def split: option.splits)

lemma track_violation_events_length:
  "length (events_csv (track_violation s v p now)) =
     length (events_csv s) +
       (if v > max_speed s then 0
        else (case violation_start s of None \<Rightarrow> 0 | Some vs \<Rightarrow> 1))"
  by (simp add: track_violation_def split: option.splits)

lemma track_violation_start:
  "(violation_start (track_violation s v p now) = None) = (v \<le> max_speed s)"
  by (auto simp add: track_violation_def split: option.splits)

lemma track_speed_active:
  assumes "trial_active s" and "start_time s = Some b"
  shows "\<exists>s'. track_speed s v p now = Inr s'
           \<and> trial_active s' \<and> start_time s' = Some b \<and> max_speed s' = max_speed s
           \<and> violation_count s' =
               violation_count s + (if v > max_speed s \<and> violation_start s = None then 1 else 0)
           \<and> violation_durations s' =
               violation_durations s @
                 (if v > max_speed s then []
                  else (case violation_start s of None \<Rightarrow> [] | Some vs \<Rightarrow> [(now - vs, v)]))
           \<and> length (events_csv s') =
               length (events_csv s) +
                 (if v > max_speed s then 0
                  else (case violation_start s of None \<Rightarrow> 0 | Some vs \<Rightarrow> 1))
           \<and> (violation_start s' \<noteq> None) = (v > max_speed s)"
proof -
  define s1 where "s1 = s\<lparr>current_speed := v,
       max_speed_during_run := max (max_speed_during_run s) v,
       min_speed_during_run :=
         (case min_speed_during_run s of None \<Rightarrow> Some v | Some m \<Rightarrow> Some (min m v))\<rparr>"
  define s2 where "s2 = track_violation s1 v p now"
  have ts: "track_speed s v p now = collect_sample s2 v p now"
    using assms(1) by (simp add: track_speed_def s1_def s2_def)
  have st: "start_time s2 = Some b"
    using assms(2) by (simp add: s2_def s1_def track_violation_fields)
  from collect_sample_fields [OF st, of v p now] obtain s' where
    s': "collect_sample s2 v p now = Inr s'"
        "trial_active s' = trial_active s2" "start_time s' = Some b"
        "max_speed s' = max_speed s2" "violation_count s' = violation_count s2"
        "violation_durations s' = violation_durations s2"
        "violation_start s' = violation_start s2" "events_csv s' = events_csv s2"
    by blast
  have f1: "max_speed s1 = max_speed s" "violation_start s1 = violation_start s"
    "violation_count s1 = violation_count s" "violation_durations s1 = violation_durations s"
    "events_csv s1 = events_csv s" "trial_active s1 = trial_active s"
    by (simp_all add: s1_def)
  have g: "trial_active s2" "max_speed s2 = max_speed s"
    "violation_count s2 =
       violation_count s + (if v > max_speed s \<and> violation_start s = None then 1 else 0)"
    "violation_durations s2 =
       violation_durations s @
         (if v > max_speed s then []
          else (case violation_start s of None \<Rightarrow> [] | Some vs \<Rightarrow> [(now - vs, v)]))"
    "length (events_csv s2) =
       length (events_csv s) +
         (if v > max_speed s then 0
          else (case violation_start s of None \<Rightarrow> 0 | Some vs \<Rightarrow> 1))"
    "(violation_start s2 = None) = (v \<le> max_speed s)"
    unfolding s2_def track_violation_fields track_violation_count track_violation_durations
      track_violation_events_length track_violation_start f1
    using assms(1) by simp_all
  have "(violation_start s' \<noteq> None) = (v > max_speed s)"
    using g(6) s'(7) by auto
  then show ?thesis
    using s' g ts by (intro exI [of _ s']) simp
qed

lemma run_ticks_counts:
  assumes "trial_active s" and "start_time s = Some b"
  shows "\<exists>s'. run_ticks s ticks = Inr s'
           \<and> trial_active s' \<and> start_time s' = Some b \<and> max_speed s' = max_speed s
           \<and> violation_count s' = violation_count s
               + int (opened_windows (max_speed s) (violation_start s \<noteq> None) (map fst ticks))
           \<and> length (violation_durations s') = length (violation_durations s)
               + closed_windows (max_speed s) (violation_start s \<noteq> None) (map fst ticks)
           \<and> length (events_csv s') = length (events_csv s)
               + closed_windows (max_speed s) (violation_start s \<noteq> None) (map fst ticks)
           \<and> (violation_start s' \<noteq> None)
               = open_at_end (max_speed s) (violation_start s \<noteq> None) (map fst ticks)"
  using assms
proof (induction ticks arbitrary: s)
  case Nil
  then show ?case by simp
next
  case (Cons t ticks)
  obtain v p now where t: "t = (v, p, now)" by (cases t) auto
  from track_speed_active [OF Cons.prems, of v p now] obtain s1 where
    s1: "track_speed s v p now = Inr s1" "trial_active s1" "start_time s1 = Some b"
        "max_speed s1 = max_speed s"
        "violation_count s1 =
               violation_count s + (if v > max_speed s \<and> violation_start s = None then 1 else 0)"
        "violation_durations s1 =
               violation_durations s @
                 (if v > max_speed s then []
                  else (case violation_start s of None \<Rightarrow> [] | Some vs \<Rightarrow> [(now - vs, v)]))"
        "length (events_csv s1) =
               length (events_csv s) +
                 (if v > max_speed s then 0
                  else (case violation_start s of None \<Rightarrow> 0 | Some vs \<Rightarrow> 1))"
        "(violation_start s1 \<noteq> None) = (v > max_speed s)"
    by blast
  from Cons.IH [OF s1(2) s1(3)] obtain s' where
    s': "run_ticks s1 ticks = Inr s'" "trial_active s'" "start_time s' = Some b"
        "max_speed s' = max_speed s1"
        "violation_count s' = violation_count s1
               + int (opened_windows (max_speed s1) (violation_start s1 \<noteq> None) (map fst ticks))"
        "length (violation_durations s') = length (violation_durations s1)
               + closed_windows (max_speed s1) (violation_start s1 \<noteq> None) (map fst ticks)"
        "length (events_csv s') = length (events_csv s1)
               + closed_windows (max_speed s1) (violation_start s1 \<noteq> None) (map fst ticks)"
        "(violation_start s' \<noteq> None)
               = open_at_end (max_speed s1) (violation_start s1 \<noteq> None) (map fst ticks)"
    by blast
  show ?case
    apply (rule exI [of _ s'])
    using s1 s' by (auto simp add: t split: option.splits)
qed

lemma opened_closed: "opened_windows l opn vs + (if opn then 1 else 0)
   = closed_windows l opn vs + (if open_at_end l opn vs then 1 else 0)"
  by (induction l opn vs rule: opened_windows.induct) auto

lemma end_trial_fields:
  assumes "start_time s = Some b"
  shows "\<exists>s'. end_trial s now = Inr s'
    \<and> summary_violation_count s' = Some (violation_count s)
    \<and> violation_count s' = violation_count s
    \<and> violation_durations s' = violation_durations s
    \<and> events_csv s' = events_csv s
    \<and> violation_start s' = violation_start s
    \<and> \<not> trial_active s' \<and> display_results s'"
  using assms
  by (simp add: end_trial_def calculate_results_def write_totals_to_csv_def py_truediv_def
      summary_violation_count_def)

subsection \<open>Violation count of a whole trial\<close>

text \<open>
  C1, as the specification states it, fails: \<^verbatim>\<open>track_speed\<close> increments
  \<^verbatim>\<open>violation_count\<close> when a window opens, not when it closes. A trial with one tick
  above the limit of 45 and then \<^verbatim>\<open>end_trial\<close> reports one violation, while no window
  was closed: there is no entry in \<^verbatim>\<open>violation_durations\<close> and no event row.
\<close>

theorem open_window_is_counted_counterexample:
  "map_sum id summary_violation_count (trial_run tm0 0 ''c'' [(50, pose0, 1)] 2) = Inr (Some 1)
   \<and> closed_windows 45 False [50] = 0
   \<and> map_sum id violation_durations (trial_run tm0 0 ''c'' [(50, pose0, 1)] 2) = Inr []
   \<and> map_sum id events_csv (trial_run tm0 0 ''c'' [(50, pose0, 1)] 2) = Inr []"
  by (simp add: trial_run_def tm0_def init_trial_manager_def start_trial_def initiate_trial_def
      track_speed_def track_violation_def collect_sample_def end_trial_def calculate_results_def
      write_totals_to_csv_def summary_violation_count_def)

text \<open>
  C1, amended: for every trial \<^verbatim>\<open>start_trial\<close>, \<^verbatim>\<open>initiate_trial\<close>, ticks,
  \<^verbatim>\<open>end_trial\<close>, from any state, the trial ends without an exception; the violation
  count of the summary is the number of violation windows opened during the trial; the
  number of entries of \<^verbatim>\<open>violation_durations\<close>, and of event rows written, is the number
  of windows closed; and the opened windows are the closed ones plus one when a window is
  open at the end. So a window open when the trial ends adds no entry to
  \<^verbatim>\<open>violation_durations\<close> and no event, but its increment of the count stays.
\<close>

theorem trial_summary_counts_opened_windows:
  "\<exists>s'. trial_run s t0 code ticks t1 = Inr s'
     \<and> summary_violation_count s' = Some (int (opened_windows (max_speed s) False (map fst ticks)))
     \<and> length (violation_durations s') = closed_windows (max_speed s) False (map fst ticks)
     \<and> length (events_csv s') = length (events_csv s) + closed_windows (max_speed s) False (map fst ticks)
     \<and> opened_windows (max_speed s) False (map fst ticks)
         = closed_windows (max_speed s) False (map fst ticks)
           + (if open_at_end (max_speed s) False (map fst ticks) then 1 else 0)"
proof -
  define a where "a = initiate_trial (start_trial s) t0 code"
  have a: "trial_active a" "start_time a = Some t0" "max_speed a = max_speed s"
    "violation_count a = 0" "violation_durations a = []" "violation_start a = None"
    "events_csv a = events_csv s"
    by (simp_all add: a_def initiate_trial_def start_trial_def)
  from run_ticks_counts [OF a(1) a(2), of ticks] obtain s1 where
    s1: "run_ticks a ticks = Inr s1" "start_time s1 = Some t0"
        "violation_count s1 = int (opened_windows (max_speed s) False (map fst ticks))"
        "length (violation_durations s1) = closed_windows (max_speed s) False (map fst ticks)"
        "length (events_csv s1) = length (events_csv s) + closed_windows (max_speed s) False (map fst ticks)"
    using a by auto
  from end_trial_fields [OF s1(2), of t1] obtain s' where
    s': "end_trial s1 t1 = Inr s'" "summary_violation_count s' = Some (violation_count s1)"
        "violation_durations s' = violation_durations s1" "events_csv s' = events_csv s1"
    by blast
  have tr: "trial_run s t0 code ticks t1 = Inr s'"
    using s1(1) s'(1) by (simp add: trial_run_def a_def)
  show ?thesis
    apply (rule exI [of _ s'])
    using tr s1 s' opened_closed [of "max_speed s" False "map fst ticks"] by simp
qed

theorem trial_summary_counts_opened_windows_witness:
  "\<exists>s'. trial_run tm0 0 ''c'' [(50, pose0, 1), (40, pose0, 3), (60, pose0, 4)] 5 = Inr s'
     \<and> summary_violation_count s' = Some 2
     \<and> length (violation_durations s') = 1
     \<and> length (events_csv s') = length (events_csv tm0) + 1"
  using trial_summary_counts_opened_windows
    [of tm0 0 "''c''" "[(50, pose0, 1), (40, pose0, 3), (60, pose0, 4)]" 5]
  by (simp add: tm0_def init_trial_manager_def)

subsection \<open>A speed equal to the limit\<close>

text \<open>
  C5: in a tick of a running trial whose sampled speed equals the speed limit, the tick
  returns, no violation window is opened (none is open after the tick), the violation
  count is not incremented, and a window that was open is closed: one pair, with the
  duration since the window opened and the speed of this tick, is appended to
  \<^verbatim>\<open>violation_durations\<close>.
\<close>

theorem speed_at_limit_is_no_violation:
  assumes "trial_active s" and "start_time s = Some b"
  shows "\<exists>s'. track_speed s (max_speed s) p now = Inr s'
     \<and> violation_count s' = violation_count s
     \<and> violation_start s' = None
     \<and> violation_durations s' = violation_durations s @
          (case violation_start s of None \<Rightarrow> [] | Some vs \<Rightarrow> [(now - vs, max_speed s)])"
  using track_speed_active [OF assms, of "max_speed s" p now] by auto

theorem speed_at_limit_is_no_violation_witness:
  "(trial_active speeding0 \<and> start_time speeding0 = Some 0 \<and> violation_start speeding0 = Some 1
      \<and> max_speed speeding0 = 45) \<and>
   (\<exists>s'. track_speed speeding0 45 pose0 3 = Inr s'
     \<and> violation_count s' = 1 \<and> violation_start s' = None
     \<and> violation_durations s' = [(2, 45)])"
proof -
  have h: "trial_active speeding0" "start_time speeding0 = Some 0"
    "violation_start speeding0 = Some 1" "max_speed speeding0 = 45"
    "violation_count speeding0 = 1" "violation_durations speeding0 = []"
    by (simp_all add: concrete_defs)
  from speed_at_limit_is_no_violation [OF h(1) h(2), of pose0 3] h show ?thesis by simp
qed

subsection \<open>Speeds recorded with the violations\<close>

lemma track_speed_records:
  assumes "trial_active s" and "start_time s = Some b"
  shows "\<exists>s'. track_speed s v p now = Inr s'
           \<and> trial_active s' \<and> start_time s' = Some b \<and> max_speed s' = max_speed s
           \<and> violation_durations s' =
               violation_durations s @
                 (if v > max_speed s then []
                  else (case violation_start s of None \<Rightarrow> [] | Some vs \<Rightarrow> [(now - vs, v)]))
           \<and> violation_start s' =
                 (if v > max_speed s
                  then (case violation_start s of None \<Rightarrow> Some now | Some vs \<Rightarrow> Some vs)
                  else None)"
  using assms
  by (simp add: track_speed_def track_violation_def collect_sample_def Let_def
      split: option.splits)

lemma run_ticks_records:
  assumes "trial_active s" and "start_time s = Some b"
  shows "\<exists>s'. run_ticks s ticks = Inr s' \<and> start_time s' = Some b
           \<and> violation_durations s' =
                violation_durations s @ closing_records (max_speed s) (violation_start s) ticks"
  using assms
proof (induction ticks arbitrary: s)
  case Nil
  then show ?case by simp
next
  case (Cons t ticks)
  obtain v p now where t: "t = (v, p, now)" by (cases t) auto
  from track_speed_records [OF Cons.prems, of v p now] obtain s1 where
    s1: "track_speed s v p now = Inr s1" "trial_active s1" "start_time s1 = Some b"
        "max_speed s1 = max_speed s"
        "violation_durations s1 =
               violation_durations s @
                 (if v > max_speed s then []
                  else (case violation_start s of None \<Rightarrow> [] | Some vs \<Rightarrow> [(now - vs, v)]))"
        "violation_start s1 =
                 (if v > max_speed s
                  then (case violation_start s of None \<Rightarrow> Some now | Some vs \<Rightarrow> Some vs)
                  else None)"
    by blast
  from Cons.IH [OF s1(2) s1(3)] obtain s' where
    s': "run_ticks s1 ticks = Inr s'" "start_time s' = Some b"
        "violation_durations s' =
           violation_durations s1 @ closing_records (max_speed s1) (violation_start s1) ticks"
    by blast
  show ?case
    using s1 s' by (intro exI [of _ s']) (simp add: t)
qed

lemma closing_records_speeds:
  "q \<in> set (closing_records limit opened ticks) \<Longrightarrow>
     snd q \<le> limit \<and> (\<exists>t \<in> set ticks. snd q = fst t)"
  by (induction limit opened ticks rule: closing_records.induct)
     (auto split: if_splits option.splits)

text \<open>
  C9: a tick of a running trial appends a pair to \<^verbatim>\<open>violation_durations\<close> exactly when
  it closes a window, that is when its speed is at or below the limit and a window is
  open, and the pair holds the time since the window opened and the speed sampled at
  this closing tick. So after any trial \<^verbatim>\<open>violation_durations\<close> is the list of the
  closed windows with their closing speeds, every recorded speed is the speed of a tick
  and is at or below the speed limit, and the average speed of the summary is the mean of
  these closing speeds (0 when there is none).
\<close>

theorem recorded_violation_speeds_at_or_below_limit:
  "(trial_active r \<and> start_time r = Some b \<longrightarrow>
      (\<exists>r'. track_speed r v p now = Inr r'
         \<and> violation_durations r' =
              violation_durations r @
                (if v > max_speed r then []
                 else (case violation_start r of None \<Rightarrow> [] | Some vs \<Rightarrow> [(now - vs, v)]))))
   \<and> (\<exists>s'. trial_run s t0 code ticks t1 = Inr s'
         \<and> violation_durations s' = closing_records (max_speed s) None ticks
         \<and> (\<forall>q \<in> set (violation_durations s').
               snd q \<le> max_speed s \<and> (\<exists>t \<in> set ticks. snd q = fst t))
         \<and> summary_avg_speed s' =
             Some (if violation_durations s' = [] then 0
                   else sum_list (map snd (violation_durations s'))
                          / real (length (violation_durations s'))))"
proof (intro conjI impI)
  assume "trial_active r \<and> start_time r = Some b"
  then show "\<exists>r'. track_speed r v p now = Inr r'
         \<and> violation_durations r' =
              violation_durations r @
                (if v > max_speed r then []
                 else (case violation_start r of None \<Rightarrow> [] | Some vs \<Rightarrow> [(now - vs, v)]))"
    using track_speed_records [of r b v p now] by blast
next
  define a where "a = initiate_trial (start_trial s) t0 code"
  have a: "trial_active a" "start_time a = Some t0" "max_speed a = max_speed s"
    "violation_durations a = []" "violation_start a = None"
    by (simp_all add: a_def initiate_trial_def start_trial_def)
  from run_ticks_records [OF a(1) a(2), of ticks] obtain s1 where
    s1: "run_ticks a ticks = Inr s1" "start_time s1 = Some t0"
        "violation_durations s1 = closing_records (max_speed s) None ticks"
    using a by auto
  define m where "m = (if violation_durations s1 = [] then 0
       else sum_list (map snd (violation_durations s1)) / real (length (violation_durations s1)))"
  have "\<exists>s'. end_trial s1 t1 = Inr s' \<and> violation_durations s' = violation_durations s1
     \<and> summary_avg_speed s' = Some m"
    using s1(2)
    by (simp add: end_trial_def calculate_results_def write_totals_to_csv_def py_truediv_def
        summary_avg_speed_def m_def)
  then obtain s' where s': "end_trial s1 t1 = Inr s'"
    "violation_durations s' = violation_durations s1" "summary_avg_speed s' = Some m"
    by blast
  have tr: "trial_run s t0 code ticks t1 = Inr s'"
    using s1(1) s'(1) by (simp add: trial_run_def a_def)
  have sp: "\<forall>q \<in> set (violation_durations s').
               snd q \<le> max_speed s \<and> (\<exists>t \<in> set ticks. snd q = fst t)"
    using closing_records_speeds [of _ "max_speed s" None ticks] by (simp add: s'(2) s1(3))
  show "\<exists>s'. trial_run s t0 code ticks t1 = Inr s'
         \<and> violation_durations s' = closing_records (max_speed s) None ticks
         \<and> (\<forall>q \<in> set (violation_durations s').
               snd q \<le> max_speed s \<and> (\<exists>t \<in> set ticks. snd q = fst t))
         \<and> summary_avg_speed s' =
             Some (if violation_durations s' = [] then 0
                   else sum_list (map snd (violation_durations s'))
                          / real (length (violation_durations s')))"
    using tr s' s1(3) sp by (intro exI [of _ s']) (simp add: m_def)
qed

theorem recorded_violation_speeds_at_or_below_limit_witness:
  "(trial_active speeding0 \<and> start_time speeding0 = Some 0 \<and> violation_start speeding0 = Some 1
      \<and> max_speed speeding0 = 45 \<and> violation_durations speeding0 = [])
   \<and> (\<exists>r'. track_speed speeding0 40 pose0 3 = Inr r' \<and> violation_durations r' = [(2, 40)])
   \<and> (\<exists>s'. trial_run tm0 0 ''c'' [(50, pose0, 1), (40, pose0, 3), (60, pose0, 4), (30, pose0, 8)] 9
               = Inr s'
         \<and> violation_durations s' = [(2, 40), (4, 30)]
         \<and> summary_avg_speed s' = Some 35)"
proof -
  have h: "trial_active speeding0" "start_time speeding0 = Some 0"
    "violation_start speeding0 = Some 1" "max_speed speeding0 = 45"
    "violation_durations speeding0 = []"
    by (simp_all add: concrete_defs)
  have m: "max_speed tm0 = 45" by (simp add: tm0_def init_trial_manager_def)
  from recorded_violation_speeds_at_or_below_limit
         [of speeding0 0 40 pose0 3 tm0 0 "''c''"
             "[(50, pose0, 1), (40, pose0, 3), (60, pose0, 4), (30, pose0, 8)]" 9]
  show ?thesis using h by (auto simp add: m)
qed

subsection \<open>Results of a trial without violations\<close>

lemma calculate_results_never_divides_by_zero:
  "calculate_results s \<noteq> Inl ZeroDivisionError"
  by (simp add: calculate_results_def py_truediv_def split: option.splits)

text \<open>
  C10: for a started trial with an empty violation list, \<^verbatim>\<open>calculate_results\<close> as
  \<^verbatim>\<open>end_trial\<close> calls it returns (no division by zero happens) with both averages
  equal to 0, and \<^verbatim>\<open>end_trial\<close> returns with these averages in the summary.
\<close>

theorem empty_violations_give_zero_averages:
  assumes "violation_durations s = []" and "start_time s = Some b"
  shows "calculate_results (s\<lparr>trial_active := False, end_time := Some now\<rparr>) =
           Inr (s\<lparr>trial_active := False, end_time := Some now,
                  trial_results := Some \<lparr>trial_duration = now - b, avg_speed = 0,
                     avg_violation_duration = 0, result_violation_count = violation_count s\<rparr>\<rparr>)
    \<and> (\<exists>s'. end_trial s now = Inr s'
          \<and> summary_avg_speed s' = Some 0 \<and> summary_avg_violation_duration s' = Some 0)"
  using assms
  by (simp add: calculate_results_def end_trial_def write_totals_to_csv_def
      summary_avg_speed_def summary_avg_violation_duration_def)

theorem empty_violations_give_zero_averages_witness:
  "(violation_durations running0 = [] \<and> start_time running0 = Some 0) \<and>
   (\<exists>s'. end_trial running0 7 = Inr s'
          \<and> summary_avg_speed s' = Some 0 \<and> summary_avg_violation_duration s' = Some 0)"
proof -
  have h: "violation_durations running0 = []" "start_time running0 = Some 0"
    by (simp_all add: concrete_defs)
  from empty_violations_give_zero_averages [OF h, of 7] h show ?thesis by blast
qed

subsection \<open>Actions in a state that forbids them\<close>

lemma index_of_None: "(index_of xs v = None) = (v \<notin> set xs)"
  by (induction xs) auto

lemma save_user_name_trial_state:
  assumes "name \<noteq> []"
  shows "\<exists>s'. save_user_name s name = Inr s' \<and> trial_state s' = trial_state s"
proof (cases "name \<in> set (user_names s)")
  case True
  then obtain i where "index_of (user_names s) name = Some i"
    using index_of_None [of "user_names s" name] by auto
  with True show ?thesis
    by (simp add: save_user_name_def trial_state_def)
next
  case False
  have "name \<in> set (user_names s @ [name])" by simp
  then obtain i where "index_of (user_names s @ [name]) name = Some i"
    using index_of_None [of "user_names s @ [name]" name] by blast
  with False assms show ?thesis
    by (simp add: save_user_name_def trial_state_def)
qed

lemma strip_nonempty_not_Nil: "strip_nonempty n \<Longrightarrow> n \<noteq> []"
  by (auto simp add: strip_nonempty_def)

lemma handle_name_keys_trial_state:
  assumes "k = K_RETURN \<or> k = K_SPACE"
  shows "\<exists>s'. handle_name_keys s k u = Inr s' \<and> trial_state s' = trial_state s"
proof (cases "active_input s \<and> k = K_RETURN \<and> strip_nonempty (new_user_name s)")
  case True
  then have "new_user_name s \<noteq> []" by (simp add: strip_nonempty_not_Nil)
  from save_user_name_trial_state [OF this, of s] obtain s1 where
    "save_user_name s (new_user_name s) = Inr s1" "trial_state s1 = trial_state s" by blast
  with True show ?thesis
    by (simp add: handle_name_keys_def trial_state_def)
next
  case False
  with assms show ?thesis
    by (auto simp add: handle_name_keys_def trial_state_def)
qed

text \<open>
  C7, as the specification states it, fails for the arm action: the polling block calls
  \<^verbatim>\<open>start_trial\<close> whenever \<^verbatim>\<open>K_KP1\<close> is held, in any state. In a running trial this
  clears \<^verbatim>\<open>trial_active\<close> and shows the start prompt.
\<close>

theorem arm_while_running_counterexample:
  "is_running (initiate_trial (start_trial tm0) 0 ''c'')
   \<and> map_sum id trial_active
        (poll_trial_keys (initiate_trial (start_trial tm0) 0 ''c'') ((=) K_KP1) 1 ''d'') = Inr False
   \<and> map_sum id start_screen
        (poll_trial_keys (initiate_trial (start_trial tm0) 0 ''c'') ((=) K_KP1) 1 ''d'') = Inr True"
  by (simp add: is_running_def poll_trial_keys_def initiate_trial_def start_trial_def tm0_def
      init_trial_manager_def)

text \<open>
  C7, amended: the start and end actions are ignored in the states that forbid them.
  A \<^verbatim>\<open>K_RETURN\<close> press with neither the start prompt nor the results on display, and
  a \<^verbatim>\<open>K_SPACE\<close> press with no trial active, make \<^verbatim>\<open>handle_event\<close> return without
  an exception and leave the trial state as it was (only the user-name box may change);
  and the polling block of the game loop returns the state unchanged when \<^verbatim>\<open>K_KP1\<close>
  is not held, \<^verbatim>\<open>K_RETURN\<close> is held only without prompt and results, and \<^verbatim>\<open>K_SPACE\<close>
  only without an active trial.
\<close>

theorem forbidden_start_and_end_are_ignored:
  "(\<not> start_screen s \<and> \<not> display_results s \<longrightarrow>
      (\<exists>s'. handle_event s (KEYDOWN K_RETURN u) now code = Inr s'
            \<and> trial_state s' = trial_state s))
   \<and> (\<not> trial_active s \<longrightarrow>
      (\<exists>s'. handle_event s (KEYDOWN K_SPACE u) now code = Inr s'
            \<and> trial_state s' = trial_state s))
   \<and> (\<not> keys K_KP1 \<and> \<not> (keys K_RETURN \<and> (start_screen s \<or> display_results s))
        \<and> \<not> (keys K_SPACE \<and> trial_active s) \<longrightarrow>
      poll_trial_keys s keys now code = Inr s)"
proof (intro conjI impI)
  assume "\<not> start_screen s \<and> \<not> display_results s"
  then have "handle_event s (KEYDOWN K_RETURN u) now code = handle_name_keys s K_RETURN u"
    by (simp add: handle_event_def)
  then show "\<exists>s'. handle_event s (KEYDOWN K_RETURN u) now code = Inr s'
            \<and> trial_state s' = trial_state s"
    using handle_name_keys_trial_state [of K_RETURN s u] by simp
next
  assume "\<not> trial_active s"
  then have "handle_event s (KEYDOWN K_SPACE u) now code = handle_name_keys s K_SPACE u"
    by (simp add: handle_event_def)
  then show "\<exists>s'. handle_event s (KEYDOWN K_SPACE u) now code = Inr s'
            \<and> trial_state s' = trial_state s"
    using handle_name_keys_trial_state [of K_SPACE s u] by simp
next
  assume "\<not> keys K_KP1 \<and> \<not> (keys K_RETURN \<and> (start_screen s \<or> display_results s))
        \<and> \<not> (keys K_SPACE \<and> trial_active s)"
  then show "poll_trial_keys s keys now code = Inr s"
    by (auto simp add: poll_trial_keys_def)
qed

theorem forbidden_start_and_end_are_ignored_witness:
  "is_idle tm0
   \<and> (\<exists>s'. handle_event tm0 (KEYDOWN K_RETURN []) 1 ''c'' = Inr s' \<and> trial_state s' = trial_state tm0)
   \<and> (\<exists>s'. handle_event tm0 (KEYDOWN K_SPACE '' '') 1 ''c'' = Inr s' \<and> trial_state s' = trial_state tm0)
   \<and> poll_trial_keys tm0 (held [K_RETURN, K_SPACE]) 1 ''c'' = Inr tm0"
proof -
  have h: "\<not> start_screen tm0" "\<not> display_results tm0" "\<not> trial_active tm0"
    by (simp_all add: tm0_def init_trial_manager_def)
  have k: "\<not> held [K_RETURN, K_SPACE] K_KP1" by (simp add: held_def)
  from forbidden_start_and_end_are_ignored [of tm0 "[]" 1 "''c''" "held [K_RETURN, K_SPACE]"]
    forbidden_start_and_end_are_ignored [of tm0 "'' ''" 1 "''c''" "held [K_RETURN, K_SPACE]"]
    h k
  show ?thesis by (simp add: is_idle_def)
qed

subsection \<open>Dismissing the results twice\<close>

text \<open>
  C8: from Finished, a \<^verbatim>\<open>K_RETURN\<close> press only clears \<^verbatim>\<open>display_results\<close>, which
  gives Idle; a second press returns without an exception, leaves the trial state
  unchanged and the machine Idle: no trial is armed or started, also not by the polling
  block of the game loop that runs after it with \<^verbatim>\<open>K_RETURN\<close> held.
\<close>

theorem dismiss_results_twice:
  assumes "is_finished s"
  shows "handle_event s (KEYDOWN K_RETURN u) now code = Inr (s\<lparr>display_results := False\<rparr>)
    \<and> is_idle (s\<lparr>display_results := False\<rparr>)
    \<and> (\<exists>s2. handle_event (s\<lparr>display_results := False\<rparr>) (KEYDOWN K_RETURN u2) now2 code2 = Inr s2
           \<and> trial_state s2 = trial_state (s\<lparr>display_results := False\<rparr>)
           \<and> is_idle s2 \<and> \<not> is_armed s2 \<and> \<not> is_running s2
           \<and> (\<not> keys K_KP1 \<longrightarrow> poll_trial_keys s2 keys now2 code2 = Inr s2))"
proof -
  let ?s1 = "s\<lparr>display_results := False\<rparr>"
  have a: "handle_event s (KEYDOWN K_RETURN u) now code = Inr ?s1"
    using assms by (simp add: handle_event_def is_finished_def)
  have b: "is_idle ?s1"
    using assms by (simp add: is_idle_def is_finished_def)
  have "\<not> start_screen ?s1 \<and> \<not> display_results ?s1"
    using assms by (simp add: is_finished_def)
  then have "handle_event ?s1 (KEYDOWN K_RETURN u2) now2 code2 = handle_name_keys ?s1 K_RETURN u2"
    by (simp add: handle_event_def)
  then obtain s2 where s2: "handle_event ?s1 (KEYDOWN K_RETURN u2) now2 code2 = Inr s2"
    "trial_state s2 = trial_state ?s1"
    using handle_name_keys_trial_state [of K_RETURN ?s1 u2] by auto
  from s2(2) b have c: "is_idle s2 \<and> \<not> is_armed s2 \<and> \<not> is_running s2"
    by (simp add: trial_state_def is_idle_def is_armed_def is_running_def)
  then have "\<not> keys K_KP1 \<longrightarrow> poll_trial_keys s2 keys now2 code2 = Inr s2"
    by (simp add: poll_trial_keys_def is_idle_def)
  with a b c s2 show ?thesis by blast
qed

theorem dismiss_results_twice_witness:
  "is_finished finished0
   \<and> handle_event finished0 (KEYDOWN K_RETURN []) 10 ''d'' = Inr (finished0\<lparr>display_results := False\<rparr>)
   \<and> (\<exists>s2. handle_event (finished0\<lparr>display_results := False\<rparr>) (KEYDOWN K_RETURN []) 11 ''e'' = Inr s2
           \<and> trial_state s2 = trial_state (finished0\<lparr>display_results := False\<rparr>) \<and> is_idle s2
           \<and> poll_trial_keys s2 (held [K_RETURN]) 11 ''e'' = Inr s2)"
proof -
  have h: "is_finished finished0" by (simp add: is_finished_def concrete_defs)
  have k: "\<not> held [K_RETURN] K_KP1" by (simp add: held_def)
  from dismiss_results_twice [OF h, of "[]" 10 "''d''" "[]" 11 "''e''" "held [K_RETURN]"] h k
  show ?thesis by blast
qed

section \<open>Properties of the input mapper\<close>

lemmas control_defs = keyboard_control_def wheel_control_def init_dual_control_def
  wheel_mapping_def no_key_mapping_def init_world_def held_def

subsection \<open>The pedal curve\<close>

text \<open>
  C4: for every raw axis value in \<open>[-1, 1]\<close> and every damping above 0 the pedal curve
  with its clamp returns a value (the logarithm is taken of a positive number, so no
  \<^verbatim>\<open>ValueError\<close>) and the value lies in \<open>[0, 1]\<close>; the bounds \<open>-1\<close> and \<open>1\<close> of
  the raw value are included.
\<close>

theorem pedal_curve_in_unit_interval:
  assumes "- 1 \<le> raw" and "raw \<le> 1" and "0 < damping"
  shows "\<exists>v. pedal_curve damping raw = Inr v \<and> 0 \<le> v \<and> v \<le> 1"
proof -
  have "0 < - (7 / 10) * raw + 14 / 10" using assms(2) by simp
  then show ?thesis by (simp add: pedal_curve_def py_log10_def)
qed

theorem pedal_curve_in_unit_interval_witness:
  "(\<exists>v. pedal_curve 1 (- 1) = Inr v \<and> 0 \<le> v \<and> v \<le> 1)
   \<and> (\<exists>v. pedal_curve 1 1 = Inr v \<and> 0 \<le> v \<and> v \<le> 1)"
  using pedal_curve_in_unit_interval [of "- 1" 1] pedal_curve_in_unit_interval [of 1 1]
  by simp

lemma pedal_curve_Inr: "pedal_curve d raw = Inr v \<Longrightarrow> 0 \<le> v \<and> v \<le> 1"
  by (auto simp add: pedal_curve_def split: sum.splits)

subsection \<open>Rounding the digital steer\<close>

lemma round_half_even_bounds:
  assumes "of_int a \<le> x" and "x \<le> of_int b"
  shows "a \<le> round_half_even x \<and> round_half_even x \<le> b"
proof -
  have fa: "a \<le> \<lfloor>x\<rfloor>" using assms(1) by (simp add: le_floor_iff)
  have fb: "\<lfloor>x\<rfloor> \<le> b" using assms(2) by (simp add: floor_le_iff)
  show ?thesis
  proof (cases "x - of_int \<lfloor>x\<rfloor> < 1 / 2")
    case True
    then show ?thesis using fa fb by (simp add: round_half_even_def Let_def)
  next
    case False
    then have "of_int \<lfloor>x\<rfloor> < x" by linarith
    then have "of_int \<lfloor>x\<rfloor> < (of_int b :: real)" using assms(2) by linarith
    then have "\<lfloor>x\<rfloor> < b" by simp
    then show ?thesis using fa by (auto simp add: round_half_even_def Let_def)
  qed
qed

lemma py_round_clamped:
  "- (7 / 10) \<le> py_round (min (7 / 10) (max (- (7 / 10)) c)) 1
   \<and> py_round (min (7 / 10) (max (- (7 / 10)) c)) 1 \<le> 7 / 10"
proof -
  define y where "y = min (7 / 10) (max (- (7 / 10)) c) * 10"
  have "of_int (- 7) \<le> y" "y \<le> of_int 7" by (auto simp add: y_def min_def max_def)
  from round_half_even_bounds [OF this]
  have "- 7 \<le> round_half_even y" "round_half_even y \<le> 7" by auto
  then have "- 7 \<le> (of_int (round_half_even y) :: real)" "(of_int (round_half_even y) :: real) \<le> 7"
    by (simp_all flip: of_int_le_iff)
  then show ?thesis by (simp add: py_round_def y_def)
qed

lemma parse_vehicle_keys_ranges:
  "throttle (control (parse_vehicle_keys dc keys ms)) \<in> {0, 1}"
  "brake (control (parse_vehicle_keys dc keys ms)) \<in> {0, 1}"
  "- (7 / 10) \<le> steer (control (parse_vehicle_keys dc keys ms))"
  "steer (control (parse_vehicle_keys dc keys ms)) \<le> 7 / 10"
  using py_round_clamped
  by (simp_all add: parse_vehicle_keys_def Let_def)

lemma py_round_small:
  assumes "\<bar>x\<bar> < 1 / 20"
  shows "py_round x (Suc 0) = 0"
proof (cases "0 \<le> x")
  case True
  with assms have "\<lfloor>x * 10\<rfloor> = 0" by (intro floor_unique) auto
  with True assms show ?thesis by (simp add: py_round_def round_half_even_def Let_def)
next
  case False
  with assms have "\<lfloor>x * 10\<rfloor> = - 1" by (intro floor_unique) auto
  with False assms show ?thesis by (simp add: py_round_def round_half_even_def Let_def)
qed

lemma left_tick:
  assumes "\<not> autopilot_enabled dc" and "\<not> joystick dc" and "keys K_LEFT \<or> keys K_a"
    and "- (7 / 10) \<le> steer_cache dc - 8 / 1000" 
  shows "\<exists>dc' w'. update_controls dc w keys 16 js = Inr (dc', w')
     \<and> \<not> autopilot_enabled dc' \<and> \<not> joystick dc'
     \<and> steer_cache dc' = min (7 / 10) (steer_cache dc - 8 / 1000)
     \<and> steer (control dc') = py_round (min (7 / 10) (steer_cache dc - 8 / 1000)) 1
     \<and> applied w' = applied w @ [control dc']"
  using assms
  by (auto simp add: update_controls_def parse_vehicle_keys_def Let_def update_vehicle_lights_def
      set_vehicle_light_state_def max_def)

text \<open>
  C6: in digital mode (no joystick, autopilot off), from a steer cache of 0, three
  per-tick updates of 16 ms each with a left-turn key held (\<^verbatim>\<open>K_LEFT\<close> or \<^verbatim>\<open>K_a\<close>)
  return, leave the steer cache at \<open>-3 * 5e-4 * 16 = -0.024\<close>, which the clamp to
  \<open>[-0.7, 0.7]\<close> does not change, and the steer of the command is 0 after each of them.
\<close>

theorem three_left_ticks_round_to_zero:
  assumes "\<not> autopilot_enabled dc" and "\<not> joystick dc" and "steer_cache dc = 0"
    and "keys K_LEFT \<or> keys K_a"
  shows "\<exists>dc' w'. run_updates dc w [(keys, 16, js1), (keys, 16, js2), (keys, 16, js3)] = Inr (dc', w')
     \<and> steer_cache dc' = - 3 * (5 / 10000) * 16
     \<and> steer_cache dc' = - (24 / 1000)
     \<and> min (7 / 10) (max (- (7 / 10)) (- (24 / 1000 :: real))) = - (24 / 1000)
     \<and> steer (control dc') = 0
     \<and> map steer (applied w') = map steer (applied w) @ [0, 0, 0]"
proof -
  from left_tick [OF assms(1,2,4), of w js1] assms(3) obtain d1 w1 where
    1: "update_controls dc w keys 16 js1 = Inr (d1, w1)" "\<not> autopilot_enabled d1" "\<not> joystick d1"
       "steer_cache d1 = - (8 / 1000)" "steer (control d1) = 0"
       "applied w1 = applied w @ [control d1]"
    by (auto simp add: py_round_small)
  from left_tick [OF 1(2,3) assms(4), of w1 js2] 1(4) obtain d2 w2 where
    2: "update_controls d1 w1 keys 16 js2 = Inr (d2, w2)" "\<not> autopilot_enabled d2" "\<not> joystick d2"
       "steer_cache d2 = - (16 / 1000)" "steer (control d2) = 0"
       "applied w2 = applied w1 @ [control d2]"
    by (auto simp add: py_round_small)
  from left_tick [OF 2(2,3) assms(4), of w2 js3] 2(4) obtain d3 w3 where
    3: "update_controls d2 w2 keys 16 js3 = Inr (d3, w3)"
       "steer_cache d3 = - (24 / 1000)" "steer (control d3) = 0"
       "applied w3 = applied w2 @ [control d3]"
    by (auto simp add: py_round_small)
  have "run_updates dc w [(keys, 16, js1), (keys, 16, js2), (keys, 16, js3)] = Inr (d3, w3)"
    using 1(1) 2(1) 3(1) by simp
  then show ?thesis
    using 1 2 3 by (intro exI [of _ d3] exI [of _ w3]) simp
qed

theorem three_left_ticks_round_to_zero_witness:
  "(\<not> autopilot_enabled keyboard_control \<and> \<not> joystick keyboard_control
      \<and> steer_cache keyboard_control = 0 \<and> held [K_LEFT] K_LEFT)
   \<and> (\<exists>dc' w'. run_updates keyboard_control init_world
                 [(held [K_LEFT], 16, []), (held [K_LEFT], 16, []), (held [K_LEFT], 16, [])]
               = Inr (dc', w')
          \<and> steer_cache dc' = - (24 / 1000) \<and> steer (control dc') = 0
          \<and> map steer (applied w') = [0, 0, 0])"
proof -
  have h: "\<not> autopilot_enabled keyboard_control" "\<not> joystick keyboard_control"
    "steer_cache keyboard_control = 0"
    by (simp_all add: keyboard_control_def init_dual_control_def)
  have k: "held [K_LEFT] K_LEFT" by (simp add: held_def)
  then have k': "held [K_LEFT] K_LEFT \<or> held [K_LEFT] K_a" by simp
  have a: "applied init_world = []" by (simp add: init_world_def)
  from three_left_ticks_round_to_zero [OF h k', of init_world "[]" "[]" "[]"]
  obtain dc' w' where "run_updates keyboard_control init_world
                 [(held [K_LEFT], 16, []), (held [K_LEFT], 16, []), (held [K_LEFT], 16, [])]
               = Inr (dc', w')" "steer_cache dc' = - (24 / 1000)" "steer (control dc') = 0"
          "map steer (applied w') = map steer (applied init_world) @ [0, 0, 0]"
    by blast
  then show ?thesis using h k a by auto
qed

subsection \<open>Ranges of the command handed to the simulator\<close>

lemma cos_11_10_pos: "0 < cos (11 / 10 :: real)"
proof -
  have s0: "0 \<le> sin (11 / 20 :: real)"
    using pi_ge_two by (intro sin_ge_zero) auto
  have s1: "sin (11 / 20 :: real) \<le> 11 / 20"
    by (rule sin_x_le_x) simp
  have "sin (11 / 20 :: real) * sin (11 / 20) \<le> (11 / 20) * (11 / 20)"
    using s0 s1 by (intro mult_mono) auto
  then have "(sin (11 / 20 :: real))\<^sup>2 \<le> 121 / 400" by (simp add: power2_eq_square)
  moreover have "cos (11 / 10 :: real) = 1 - 2 * (sin (11 / 20))\<^sup>2"
    using cos_double_sin [of "11 / 20 :: real"] by simp
  ultimately show ?thesis by simp
qed

lemma eleven_tenths_less_half_pi: "(11 / 10 :: real) < pi / 2"
proof (rule ccontr)
  assume "\<not> (11 / 10 :: real) < pi / 2"
  then have le: "pi / 2 \<le> 11 / 10" by simp
  have "cos (11 / 10 :: real) \<le> cos (pi / 2)"
    using le pi_ge_two by (intro cos_monotone_0_pi_le) auto
  then show False using cos_11_10_pos by simp
qed

lemma tan_11_10_gt_1: "1 < tan (11 / 10 :: real)"
proof -
  have "pi / 4 < (11 / 10 :: real)" using pi_less_4 by simp
  moreover have "- (pi / 2) < pi / 4" using pi_gt_zero by linarith
  ultimately have "tan (pi / 4) < tan (11 / 10 :: real)"
    using eleven_tenths_less_half_pi by (intro tan_monotone) auto
  then show ?thesis by (simp add: tan_45)
qed

lemma parse_vehicle_wheel_ranges:
  assumes "parse_vehicle_wheel dc js = Inr dc'"
    and "0 \<le> throttle (control dc) \<and> throttle (control dc) \<le> 1"
    and "0 \<le> brake (control dc) \<and> brake (control dc) \<le> 1"
  shows "0 \<le> throttle (control dc') \<and> throttle (control dc') \<le> 1
       \<and> 0 \<le> brake (control dc') \<and> brake (control dc') \<le> 1
       \<and> gear (control dc') = gear (control dc)
       \<and> hand_brake (control dc') = hand_brake (control dc)"
  using assms
  by (auto simp add: parse_vehicle_wheel_def split: option.splits sum.splits
      dest: pedal_curve_Inr)

lemma parse_vehicle_wheel_steer:
  assumes "parse_vehicle_wheel dc js = Inr dc'"
    and "joy_steering (axis_mapping dc) = Some a" and "joy_throttle (axis_mapping dc) \<noteq> None"
    and "joy_brake (axis_mapping dc) \<noteq> None"
  shows "\<exists>raw. py_index js a = Inr raw
           \<and> steer (control dc') = steering_damping dc * tan (11 / 10 * raw)"
  using assms
  by (auto simp add: parse_vehicle_wheel_def split: option.splits sum.splits)

lemma parse_vehicle_wheel_unmapped:
  assumes "joy_steering (axis_mapping dc) = None \<or> joy_throttle (axis_mapping dc) = None
      \<or> joy_brake (axis_mapping dc) = None"
  shows "parse_vehicle_wheel dc js = Inr dc"
  using assms
  by (auto simp add: parse_vehicle_wheel_def split: option.splits)

lemma parse_vehicle_keys_config:
  "axis_mapping (parse_vehicle_keys dc keys ms) = axis_mapping dc"
  "steering_damping (parse_vehicle_keys dc keys ms) = steering_damping dc"
  "joystick (parse_vehicle_keys dc keys ms) = joystick dc"
  "gear (control (parse_vehicle_keys dc keys ms)) = gear (control dc)"
  "hand_brake (control (parse_vehicle_keys dc keys ms)) = keys K_SPACE"
  by (simp_all add: parse_vehicle_keys_def Let_def)

lemma update_controls_digital:
  assumes "\<not> autopilot_enabled dc" and "\<not> analog_mode dc"
  shows "update_controls dc w keys ms js =
     Inr ((parse_vehicle_keys dc keys ms)
            \<lparr>control := (control (parse_vehicle_keys dc keys ms))
               \<lparr>reverse := (gear (control dc) < 0)\<rparr>\<rparr>,
          update_vehicle_lights
            ((parse_vehicle_keys dc keys ms)
               \<lparr>control := (control (parse_vehicle_keys dc keys ms))
                  \<lparr>reverse := (gear (control dc) < 0)\<rparr>\<rparr>)
            (w\<lparr>applied := applied w @
                [(control (parse_vehicle_keys dc keys ms))\<lparr>reverse := (gear (control dc) < 0)\<rparr>]\<rparr>))"
proof (cases "joystick dc")
  case False
  with assms(1) show ?thesis
    by (simp add: update_controls_def Let_def parse_vehicle_keys_config)
next
  case True
  with assms(2) have "joy_steering (axis_mapping (parse_vehicle_keys dc keys ms)) = None
      \<or> joy_throttle (axis_mapping (parse_vehicle_keys dc keys ms)) = None
      \<or> joy_brake (axis_mapping (parse_vehicle_keys dc keys ms)) = None"
    by (auto simp add: analog_mode_def parse_vehicle_keys_config)
  from parse_vehicle_wheel_unmapped [OF this] True assms(1) show ?thesis
    by (simp add: update_controls_def Let_def parse_vehicle_keys_config)
qed

lemma update_controls_Inr:
  assumes "update_controls dc w keys ms js = Inr (dc', w')" and "\<not> autopilot_enabled dc"
  obtains dc1 where
    "(if joystick dc then parse_vehicle_wheel (parse_vehicle_keys dc keys ms) js
      else Inr (parse_vehicle_keys dc keys ms)) = Inr dc1"
    "dc' = dc1\<lparr>control := (control dc1)\<lparr>reverse := (gear (control dc1) < 0)\<rparr>\<rparr>"
    "w' = update_vehicle_lights dc' (w\<lparr>applied := applied w @ [control dc']\<rparr>)"
  using assms
  by (auto simp add: update_controls_def Let_def split: sum.splits if_splits)

lemma update_vehicle_lights_fields:
  "applied (update_vehicle_lights dc w) = applied w"
  "headlights_on (update_vehicle_lights dc w) = headlights_on w"
  "(LowBeam \<in> light_state (update_vehicle_lights dc w)) = (LowBeam \<in> light_state w)"
  "(HighBeam \<in> light_state (update_vehicle_lights dc w)) = (HighBeam \<in> light_state w)"
  "(Position \<in> light_state (update_vehicle_lights dc w)) = (Position \<in> light_state w)"
  by (auto simp add: update_vehicle_lights_def set_vehicle_light_state_def Let_def)

text \<open>
  C2, as the specification states it, fails for the steer in analog mode: with a steering
  damping of 1 and the steering axis at 1 the command handed to the simulator has
  \<open>steer = tan 1.1\<close>, which is above 1.
\<close>

theorem analog_steer_exceeds_one_counterexample:
  "map_sum id (steer \<circ> last \<circ> applied \<circ> snd)
     (update_controls wheel_control init_world (held []) 16 [1, 0, 0]) = Inr (tan (11 / 10))
   \<and> (1 :: real) < tan (11 / 10)"
  using tan_11_10_gt_1
  by (simp add: control_defs update_controls_def parse_vehicle_keys_def parse_vehicle_wheel_def
      pedal_curve_def py_log10_def py_index_def update_vehicle_lights_def
      set_vehicle_light_state_def Let_def)

text \<open>
  C2, amended: with the autopilot off, every command that a per-tick update hands to the
  simulator has throttle and brake in \<open>[0, 1]\<close>, in both modes; in digital mode the
  update always returns and the steer lies in \<open>[-1, 1]\<close>; in analog mode the steer is
  \<open>steering_damping * tan (1.1 * raw)\<close> for the raw value of the steering axis, without
  a clamp.
\<close>

theorem applied_command_ranges:
  assumes "\<not> autopilot_enabled dc"
  shows "(\<not> analog_mode dc \<longrightarrow> (\<exists>dc' w'. update_controls dc w keys ms js = Inr (dc', w')))
    \<and> (\<forall>dc' w'. update_controls dc w keys ms js = Inr (dc', w') \<longrightarrow>
          applied w' = applied w @ [control dc']
          \<and> 0 \<le> throttle (control dc') \<and> throttle (control dc') \<le> 1
          \<and> 0 \<le> brake (control dc') \<and> brake (control dc') \<le> 1
          \<and> (\<not> analog_mode dc \<longrightarrow> - 1 \<le> steer (control dc') \<and> steer (control dc') \<le> 1)
          \<and> (analog_mode dc \<longrightarrow>
               (\<exists>a raw. joy_steering (axis_mapping dc) = Some a \<and> py_index js a = Inr raw
                  \<and> steer (control dc') = steering_damping dc * tan (11 / 10 * raw))))"
proof (intro conjI impI allI)
  assume "\<not> analog_mode dc"
  then show "\<exists>dc' w'. update_controls dc w keys ms js = Inr (dc', w')"
    using update_controls_digital [OF assms] by simp
next
  fix dc' w'
  assume u: "update_controls dc w keys ms js = Inr (dc', w')"
  let ?k = "parse_vehicle_keys dc keys ms"
  from update_controls_Inr [OF u assms] obtain dc1 where
    d1: "(if joystick dc then parse_vehicle_wheel ?k js else Inr ?k) = Inr dc1"
    and d': "dc' = dc1\<lparr>control := (control dc1)\<lparr>reverse := (gear (control dc1) < 0)\<rparr>\<rparr>"
    and w': "w' = update_vehicle_lights dc' (w\<lparr>applied := applied w @ [control dc']\<rparr>)"
    by blast
  have k: "0 \<le> throttle (control ?k) \<and> throttle (control ?k) \<le> 1"
    "0 \<le> brake (control ?k) \<and> brake (control ?k) \<le> 1"
    using parse_vehicle_keys_ranges(1,2) [of dc keys ms] by auto
  have r1: "0 \<le> throttle (control dc1) \<and> throttle (control dc1) \<le> 1
       \<and> 0 \<le> brake (control dc1) \<and> brake (control dc1) \<le> 1"
  proof (cases "joystick dc")
    case True
    with d1 have "parse_vehicle_wheel ?k js = Inr dc1" by simp
    from parse_vehicle_wheel_ranges [OF this k] show ?thesis by simp
  next
    case False
    with d1 k show ?thesis by simp
  qed
  show "applied w' = applied w @ [control dc']"
    by (simp add: w' update_vehicle_lights_fields)
  show "0 \<le> throttle (control dc')" "throttle (control dc') \<le> 1"
    "0 \<le> brake (control dc')" "brake (control dc') \<le> 1"
    using r1 by (simp_all add: d')
  {
    assume "\<not> analog_mode dc"
    from update_controls_digital [OF assms this, of w keys ms js] u
    have "steer (control dc') = steer (control ?k)" by auto
    then show "- 1 \<le> steer (control dc')" "steer (control dc') \<le> 1"
      using parse_vehicle_keys_ranges(3,4) [of dc keys ms] by auto
  }
  {
    assume am: "analog_mode dc"
    then obtain a where a: "joy_steering (axis_mapping dc) = Some a"
      by (auto simp add: analog_mode_def)
    from am d1 have pw: "parse_vehicle_wheel ?k js = Inr dc1" by (simp add: analog_mode_def)
    from parse_vehicle_wheel_steer [OF pw, of a] a am obtain raw where
      "py_index js a = Inr raw" "steer (control dc1) = steering_damping dc * tan (11 / 10 * raw)"
      by (auto simp add: analog_mode_def parse_vehicle_keys_config)
    then show "\<exists>a raw. joy_steering (axis_mapping dc) = Some a \<and> py_index js a = Inr raw
                  \<and> steer (control dc') = steering_damping dc * tan (11 / 10 * raw)"
      using a by (simp add: d')
  }
qed

theorem applied_command_ranges_witness:
  "\<not> autopilot_enabled keyboard_control \<and> \<not> analog_mode keyboard_control
   \<and> (\<exists>dc' w'. update_controls keyboard_control init_world (held [K_LEFT, K_UP]) 16 [] = Inr (dc', w')
        \<and> applied w' = applied init_world @ [control dc']
        \<and> 0 \<le> throttle (control dc') \<and> throttle (control dc') \<le> 1
        \<and> 0 \<le> brake (control dc') \<and> brake (control dc') \<le> 1
        \<and> - 1 \<le> steer (control dc') \<and> steer (control dc') \<le> 1)"
proof -
  have h: "\<not> autopilot_enabled keyboard_control" "\<not> analog_mode keyboard_control"
    by (simp_all add: control_defs analog_mode_def)
  from applied_command_ranges [OF h(1), of init_world "held [K_LEFT, K_UP]" 16 "[]"] h
  show ?thesis by blast
qed

subsection \<open>Toggles and the per-tick update\<close>

text \<open>
  The per-tick update leaves the gear and the headlight and high-beam flags as they are.
\<close>

lemma update_controls_keeps_gear_and_beams:
  assumes "update_controls dc w keys ms js = Inr (dc', w')"
  shows "gear (control dc') = gear (control dc)
     \<and> headlights_on w' = headlights_on w
     \<and> (LowBeam \<in> light_state w') = (LowBeam \<in> light_state w)
     \<and> (HighBeam \<in> light_state w') = (HighBeam \<in> light_state w)"
proof (cases "autopilot_enabled dc")
  case True
  with assms show ?thesis by (simp add: update_controls_def)
next
  case False
  let ?k = "parse_vehicle_keys dc keys ms"
  from update_controls_Inr [OF assms False] obtain dc1 where
    d1: "(if joystick dc then parse_vehicle_wheel ?k js else Inr ?k) = Inr dc1"
    and d': "dc' = dc1\<lparr>control := (control dc1)\<lparr>reverse := (gear (control dc1) < 0)\<rparr>\<rparr>"
    and w': "w' = update_vehicle_lights dc' (w\<lparr>applied := applied w @ [control dc']\<rparr>)"
    by blast
  have "gear (control dc1) = gear (control dc)"
  proof (cases "joystick dc")
    case True
    with d1 have "parse_vehicle_wheel ?k js = Inr dc1" by simp
    then have "gear (control dc1) = gear (control ?k)"
      by (auto simp add: parse_vehicle_wheel_def split: option.splits sum.splits)
    then show ?thesis by (simp add: parse_vehicle_keys_config)
  next
    case False
    with d1 show ?thesis by (auto simp add: parse_vehicle_keys_config)
  qed
  then show ?thesis by (simp add: d' w' update_vehicle_lights_fields)
qed

text \<open>
  C3 fails on the code for the hand brake. A press of the joystick button mapped to the
  hand brake toggles \<^verbatim>\<open>hand_brake\<close> to true, and the per-tick update that follows,
  with no event and \<^verbatim>\<open>K_SPACE\<close> not held, sets it back to false, because
  \<^verbatim>\<open>_parse_vehicle_keys\<close> assigns \<^verbatim>\<open>keys[K_SPACE]\<close> to it in every tick. The same
  happens inside one call of \<^verbatim>\<open>parse_events\<close>: the command handed to the simulator
  after the press has the hand brake off.
\<close>

theorem hand_brake_toggle_is_overwritten:
  "hand_brake (control (fst (handle_joystick_button wheel_control init_world 5))) = True
   \<and> map_sum id (hand_brake \<circ> control \<circ> fst)
       (update_controls (fst (handle_joystick_button wheel_control init_world 5))
          (snd (handle_joystick_button wheel_control init_world 5)) (held []) 16 [0, 0, 0])
       = Inr False
   \<and> map_sum id (hand_brake \<circ> last \<circ> applied \<circ> fst \<circ> snd \<circ> snd)
       (parse_events wheel_control init_world tm0 [JOYBUTTONDOWN 5] False False 0 ''c''
          (held []) 16 [0, 0, 0])
       = Inr False"
  by (simp add: control_defs handle_joystick_button_def toggle_hand_brake_def parse_events_def
      update_controls_def parse_vehicle_keys_def parse_vehicle_wheel_def
      pedal_curve_def py_log10_def py_index_def update_vehicle_lights_def
      set_vehicle_light_state_def Let_def)

end
